theory Spec2Isabelle
  imports Complex_Main
begin

section \<open>The parameter store of a partitioned substitution model (model.hpp)\<close>

text \<open>
  A shallow embedding of \<^verbatim>\<open>strom::Model\<close>. Conventions of the embedding:
  \<^item> rounding is left out: an operation on doubles yields its exact real result as long
    as that result lies in the range of a double. What leaves the range is modelled:
    the type \<open>double\<close> below has the infinities and NaN, an overflowing result is an
    infinity, an underflowing one is zero, and \<^verbatim>\<open>log\<close> of zero is minus infinity. A
    stored parameter is a finite double, kept as a real number; \<^verbatim>\<open>logRatioTransform\<close>
    is modelled on real numbers with \<open>ln\<close> and is stated and used below for positive
    values only, whose logarithms lie well inside the range;
  \<^item> an \<^verbatim>\<open>unsigned\<close> is a natural number (no count in this file comes near \<open>2 ^ 32\<close>);
  \<^item> a function that updates its argument in place returns the updated value;
  \<^item> a failed \<^verbatim>\<open>assert\<close>, a thrown \<^verbatim>\<open>XStrom\<close> and an access that C++ leaves undefined
    (an index beyond a vector, a null or dangling pointer) are results \<open>Inl e\<close>;
  \<^item> an object held through a \<^verbatim>\<open>shared_ptr\<close> lives in a heap at an address, and the
    pointer is that address: two pointers alias exactly when the addresses are equal.
\<close>

subsection \<open>Formatted text and errors\<close>

text \<open>
  Text is kept as the tree of its construction: \<open>Fmt t args\<close> stands for
  \<^verbatim>\<open>boost::str(boost::format(t) % arg ...)\<close>, the arguments in the order they are fed,
  \<open>Cat\<close> for a string grown by \<^verbatim>\<open>+=\<close>. How \<^verbatim>\<open>%12d\<close> or \<^verbatim>\<open>%g\<close> prints a value is not
  modelled; which value goes into which field is.
\<close>

datatype ftext = Lit string | Num nat | Dbl real | Fmt string "ftext list" | Cat "ftext list"

datatype error = XStrom ftext | AssertionFailed | UndefinedBehaviour

definition bindE :: "error + 'a \<Rightarrow> ('a \<Rightarrow> error + 'b) \<Rightarrow> error + 'b" where
  "bindE x f = (case x of Inl e \<Rightarrow> Inl e | Inr v \<Rightarrow> f v)"

text \<open>A loop whose body may fail: the first failure ends it.\<close>

fun foldE :: "('i \<Rightarrow> 's \<Rightarrow> error + 's) \<Rightarrow> 'i list \<Rightarrow> 's \<Rightarrow> error + 's" where
  "foldE f [] s = Inr s"
| "foldE f (x # xs) s = bindE (f x s) (foldE f xs)"

fun mapE :: "('i \<Rightarrow> error + 'b) \<Rightarrow> 'i list \<Rightarrow> error + 'b list" where
  "mapE f [] = Inr []"
| "mapE f (x # xs) = bindE (f x) (\<lambda>y. bindE (mapE f xs) (\<lambda>ys. Inr (y # ys)))"

text \<open>\<^verbatim>\<open>v[i]\<close> on a \<^verbatim>\<open>std::vector\<close>: undefined beyond the end.\<close>

definition vec_at :: "'a list \<Rightarrow> nat \<Rightarrow> error + 'a" where
  "vec_at xs i = (if i < length xs then Inr (xs ! i) else Inl UndefinedBehaviour)"

text \<open>\<^verbatim>\<open>*p\<close> and \<^verbatim>\<open>p->\<close> on a shared pointer: undefined when nothing lives at \<open>p\<close>.\<close>

definition deref :: "('a \<rightharpoonup> 'b) \<Rightarrow> 'a \<Rightarrow> error + 'b" where
  "deref heap p = (case heap p of None \<Rightarrow> Inl UndefinedBehaviour | Some v \<Rightarrow> Inr v)"

subsection \<open>Doubles\<close>

text \<open>
  A double is a finite value, an infinity or NaN. The sign of a zero is not kept: the
  only division of the source is by \<^verbatim>\<open>1.0 + phi\<close>, which is never a zero.
\<close>

datatype double = Fin real | PInf | NInf | NaN

text \<open>
  The largest finite double is \<open>2 ^ 1024 - 2 ^ 971\<close>; a result of magnitude
  \<open>2 ^ 1024 - 2 ^ 970\<close> or more becomes an infinity. The smallest positive double is
  \<open>1 / 2 ^ 1074\<close>; a result of magnitude half of that or less becomes zero.
\<close>

definition overflow_bound :: real where
  "overflow_bound = 2 ^ 1024 - 2 ^ 970"

definition underflow_bound :: real where
  "underflow_bound = 1 / 2 ^ 1075"

text \<open>The double that an exact result becomes.\<close>

definition to_double :: "real \<Rightarrow> double" where
  "to_double r =
     (if overflow_bound \<le> r then PInf
      else if r \<le> - overflow_bound then NInf
      else if \<bar>r\<bar> \<le> underflow_bound then Fin 0
      else Fin r)"

text \<open>\<^verbatim>\<open>a + b\<close>, \<^verbatim>\<open>a / b\<close>, \<^verbatim>\<open>exp(a)\<close> and \<^verbatim>\<open>log(a)\<close> on doubles.\<close>

fun add_double :: "double \<Rightarrow> double \<Rightarrow> double" where
  "add_double (Fin a) (Fin b) = to_double (a + b)"
| "add_double NaN b = NaN"
| "add_double a NaN = NaN"
| "add_double PInf NInf = NaN"
| "add_double NInf PInf = NaN"
| "add_double PInf b = PInf"
| "add_double a PInf = PInf"
| "add_double NInf b = NInf"
| "add_double a NInf = NInf"

fun div_double :: "double \<Rightarrow> double \<Rightarrow> double" where
  "div_double (Fin a) (Fin b) =
     (if b = 0 then (if a = 0 then NaN else if 0 < a then PInf else NInf)
      else to_double (a / b))"
| "div_double NaN b = NaN"
| "div_double a NaN = NaN"
| "div_double (Fin a) PInf = Fin 0"
| "div_double (Fin a) NInf = Fin 0"
| "div_double PInf (Fin b) = (if 0 \<le> b then PInf else NInf)"
| "div_double NInf (Fin b) = (if 0 \<le> b then NInf else PInf)"
| "div_double a b = NaN"

fun exp_double :: "double \<Rightarrow> double" where
  "exp_double (Fin a) = to_double (exp a)"
| "exp_double PInf = PInf"
| "exp_double NInf = Fin 0"
| "exp_double NaN = NaN"

fun log_double :: "double \<Rightarrow> double" where
  "log_double (Fin a) =
     (if a < 0 then NaN else if a = 0 then NInf else to_double (ln a))"
| "log_double PInf = PInf"
| "log_double NInf = NaN"
| "log_double NaN = NaN"

subsection \<open>The log-ratio transform and its inverse\<close>

text \<open>One round of the loop of \<^verbatim>\<open>logRatioTransform\<close>, at index \<open>i\<close>.\<close>

definition lrt_step :: "real list \<Rightarrow> real \<Rightarrow> nat \<Rightarrow> real list \<times> real \<Rightarrow> real list \<times> real" where
  "lrt_step param_vect log_first i st =
     (case st of (result_vect, log_jacobian) \<Rightarrow>
        let element = param_vect ! i;
            log_element = ln element
        in (result_vect[i - 1 := log_element - log_first], log_jacobian + log_element))"

text \<open>
  \<^verbatim>\<open>double Model::logRatioTransform(std::vector<double> & param_vect) const\<close>:
  the pair returned is the new content of \<^verbatim>\<open>param_vect\<close> and the value returned.
\<close>

definition logRatioTransform :: "real list \<Rightarrow> error + (real list \<times> real)" where
  "logRatioTransform param_vect =
     (let sz = length param_vect in
      if \<not> 0 < sz then Inl AssertionFailed
      else
        let result_vect = replicate (sz - 1) (0::real);
            first = param_vect ! 0;
            log_first = ln first;
            log_jacobian = log_first
        in Inr (fold (lrt_step param_vect log_first) [1..<sz] (result_vect, log_jacobian)))"

text \<open>
  The first loop of \<^verbatim>\<open>logRatioUntransform\<close>: exponentiate and add up. An exponential
  may overflow or underflow, so this function works on doubles.
\<close>

definition lru_exp_step :: "double list \<Rightarrow> nat \<Rightarrow> double list \<times> double \<Rightarrow> double list \<times> double" where
  "lru_exp_step param_vect i st =
     (case st of (result_vect, phi) \<Rightarrow>
        let r = exp_double (param_vect ! (i - 1))
        in (result_vect[i := r], add_double phi r))"

text \<open>The second loop: divide by \<open>1 + phi\<close> and add up the logarithms.\<close>

definition lru_norm_step :: "double \<Rightarrow> nat \<Rightarrow> double list \<times> double \<Rightarrow> double list \<times> double" where
  "lru_norm_step phi i st =
     (case st of (result_vect, log_jacobian) \<Rightarrow>
        let result_vect' = result_vect[i := div_double (result_vect ! i) (add_double (Fin 1) phi)]
        in (result_vect', add_double log_jacobian (log_double (result_vect' ! i))))"

text \<open>\<^verbatim>\<open>double Model::logRatioUntransform(std::vector<double> & param_vect) const\<close>.\<close>

definition logRatioUntransform :: "double list \<Rightarrow> error + (double list \<times> double)" where
  "logRatioUntransform param_vect =
     (let sz = length param_vect in
      if \<not> 0 < sz then Inl AssertionFailed
      else
        let result_vect = (replicate (sz + 1) (Fin 0))[0 := Fin 1];
            (result_vect, phi) = fold (lru_exp_step param_vect) [1..<sz + 1] (result_vect, Fin 0)
        in Inr (fold (lru_norm_step phi) [0..<sz + 1] (result_vect, Fin 0)))"

subsection \<open>The objects of the store\<close>

type_synonym addr = nat

text \<open>
  Modelled from the spec: \<^verbatim>\<open>datatype.hpp\<close> is not among the sources. A datatype descriptor
  answers \<^verbatim>\<open>isNucleotide()\<close>, \<^verbatim>\<open>isCodon()\<close> and \<^verbatim>\<open>getNumStates()\<close>; \<^verbatim>\<open>setSubsetDataTypes\<close>
  shows that a descriptor may be neither nucleotide nor codon.
\<close>

datatype DataKind = Nucleotide | Codon | OtherKind

record DataType =
  kind :: DataKind
  num_states :: nat

definition isNucleotide :: "DataType \<Rightarrow> bool" where
  "isNucleotide d = (kind d = Nucleotide)"

definition isCodon :: "DataType \<Rightarrow> bool" where
  "isCodon d = (kind d = Codon)"

definition getNumStates :: "DataType \<Rightarrow> nat" where
  "getNumStates d = num_states d"

text \<open>
  Modelled from the spec: \<^verbatim>\<open>qmatrix.hpp\<close> is not among the sources. A rate matrix holds
  shared pointers to its state frequencies, to its exchangeabilities (nucleotide) and to
  its omega (codon), and one fixed/free flag for each; the accessors used by
  \<^verbatim>\<open>Model\<close> read these fields.
\<close>

record QMatrix =
  state_freqs_ptr :: addr
  exchangeabilities_ptr :: addr
  omega_ptr :: addr
  fixed_state_freqs :: bool
  fixed_exchangeabilities :: bool
  fixed_omega :: bool

text \<open>
  Modelled from the spec: \<^verbatim>\<open>asrv.hpp\<close> is not among the sources. A rate-heterogeneity object
  holds the number of categories, shared pointers to the rate variance and to the
  proportion of invariable sites, a fixed/free flag for each, and the invariable-sites
  switch.
\<close>

record ASRV =
  num_categ :: nat
  ratevar_ptr :: addr
  pinvar_ptr :: addr
  ratevar_fixed :: bool
  pinvar_fixed :: bool
  is_invar_model :: bool

text \<open>What the shared pointers point to.\<close>

record heap =
  qmatrices :: "addr \<rightharpoonup> QMatrix"
  asrvs :: "addr \<rightharpoonup> ASRV"
  vectors :: "addr \<rightharpoonup> real list"
  doubles :: "addr \<rightharpoonup> real"

text \<open>The data members of \<^verbatim>\<open>class Model\<close>, in the order of their declaration.\<close>

record Model =
  num_subsets :: nat
  num_sites :: nat
  subset_sizes :: "nat list"
  subset_npatterns :: "nat list"
  subset_datatypes :: "DataType list"
  qmatrix :: "addr list"
  asrv :: "addr list"
  tree_index :: bool
  tree_fixed :: bool
  allow_polytomies :: bool
  resolution_class_prior :: bool
  topo_prior_C :: real
  subset_relrates_fixed :: bool
  subset_relrates :: "real list"
  state_freq_params :: "addr list"
  exchangeability_params :: "addr list"
  omega_params :: "addr list"
  ratevar_params :: "addr list"
  pinvar_params :: "addr list"

subsection \<open>Setters\<close>

text \<open>
  Modelled from the spec: \<^verbatim>\<open>ASRV::setNumCateg\<close>, \<^verbatim>\<open>setRateVarSharedPtr\<close>, \<^verbatim>\<open>fixRateVar\<close>,
  \<^verbatim>\<open>setPinvarSharedPtr\<close> and \<^verbatim>\<open>fixPinvar\<close> store their argument in the field of that name.
\<close>

definition setSubsetNumCateg :: "nat \<Rightarrow> nat \<Rightarrow> heap \<times> Model \<Rightarrow> error + (heap \<times> Model)" where
  "setSubsetNumCateg ncateg subset' st =
     (case st of (h, m) \<Rightarrow>
        if \<not> subset' < num_subsets m then Inl AssertionFailed
        else if ncateg < 1 then
          Inl (XStrom (Fmt ''number of categories used for among-site rate variation must be greater than zero but the value %d was supplied'' [Num ncateg]))
        else
          bindE (vec_at (asrv m) subset') (\<lambda>aa.
          bindE (deref (asrvs h) aa) (\<lambda>a.
          Inr (h\<lparr>asrvs := (asrvs h)(aa \<mapsto> a\<lparr>num_categ := ncateg\<rparr>)\<rparr>, m))))"

definition setSubsetRateVar :: "addr \<Rightarrow> nat \<Rightarrow> bool \<Rightarrow> heap \<times> Model \<Rightarrow> error + (heap \<times> Model)" where
  "setSubsetRateVar ratevar subset' fixed st =
     (case st of (h, m) \<Rightarrow>
        if \<not> subset' < num_subsets m then Inl AssertionFailed
        else case doubles h ratevar of
          None \<Rightarrow> Inl AssertionFailed
        | Some v \<Rightarrow>
            if v < 0 then
              Inl (XStrom (Fmt ''rate variance must be greater than or equal to zero but the value %.5f was supplied'' [Dbl v]))
            else
              bindE (vec_at (asrv m) subset') (\<lambda>aa.
              bindE (deref (asrvs h) aa) (\<lambda>a.
              Inr (h\<lparr>asrvs := (asrvs h)(aa \<mapsto> a\<lparr>ratevar_ptr := ratevar, ratevar_fixed := fixed\<rparr>)\<rparr>, m))))"

definition setSubsetPinvar :: "addr \<Rightarrow> nat \<Rightarrow> bool \<Rightarrow> heap \<times> Model \<Rightarrow> error + (heap \<times> Model)" where
  "setSubsetPinvar pinvar subset' fixed st =
     (case st of (h, m) \<Rightarrow>
        if \<not> subset' < num_subsets m then Inl AssertionFailed
        else case doubles h pinvar of
          None \<Rightarrow> Inl AssertionFailed
        | Some v \<Rightarrow>
            if v < 0 then
              Inl (XStrom (Fmt ''proportion of invariable sites must be greater than or equal to zero but the value %.5f was supplied'' [Dbl v]))
            else if v \<ge> 1 then
              Inl (XStrom (Fmt ''proportion of invariable sites must be less than one but the value %.5f was supplied'' [Dbl v]))
            else
              bindE (vec_at (asrv m) subset') (\<lambda>aa.
              bindE (deref (asrvs h) aa) (\<lambda>a.
              Inr (h\<lparr>asrvs := (asrvs h)(aa \<mapsto> a\<lparr>pinvar_ptr := pinvar, pinvar_fixed := fixed\<rparr>)\<rparr>, m))))"

text \<open>
  Modelled from the spec: \<^verbatim>\<open>QMatrix::setEqualExchangeabilities\<close> installs the pointer and
  overwrites the vector behind it with the uniform vector of the six nucleotide
  exchangeabilities; \<^verbatim>\<open>setExchangeabilitiesSharedPtr\<close> installs the pointer;
  \<^verbatim>\<open>fixExchangeabilities\<close> stores the flag.
\<close>

definition setSubsetExchangeabilities :: "addr \<Rightarrow> nat \<Rightarrow> bool \<Rightarrow> heap \<times> Model \<Rightarrow> error + (heap \<times> Model)" where
  "setSubsetExchangeabilities exchangeabilities subset' fixed st =
     (case st of (h, m) \<Rightarrow>
        if \<not> subset' < num_subsets m then Inl AssertionFailed
        else
          bindE (vec_at (subset_datatypes m) subset') (\<lambda>dt.
          if \<not> isCodon dt then
            bindE (deref (vectors h) exchangeabilities) (\<lambda>x.
            bindE (vec_at x 0) (\<lambda>first_xchg.
            bindE (vec_at (qmatrix m) subset') (\<lambda>qa.
            bindE (deref (qmatrices h) qa) (\<lambda>q.
            let h1 = (if first_xchg = - 1
                      then h\<lparr>vectors := (vectors h)(exchangeabilities \<mapsto> replicate 6 (1 / 6))\<rparr>
                      else h);
                q1 = q\<lparr>exchangeabilities_ptr := exchangeabilities, fixed_exchangeabilities := fixed\<rparr>
            in Inr (h1\<lparr>qmatrices := (qmatrices h1)(qa \<mapsto> q1)\<rparr>, m)))))
          else Inr (h, m)))"

text \<open>
  Modelled from the spec: \<^verbatim>\<open>QMatrix::setOmegaSharedPtr\<close> installs the pointer and
  \<^verbatim>\<open>fixOmega\<close> stores the flag.
\<close>

definition setSubsetOmega :: "addr \<Rightarrow> nat \<Rightarrow> bool \<Rightarrow> heap \<times> Model \<Rightarrow> error + (heap \<times> Model)" where
  "setSubsetOmega omega subset' fixed st =
     (case st of (h, m) \<Rightarrow>
        if \<not> subset' < num_subsets m then Inl AssertionFailed
        else
          bindE (deref (doubles h) omega) (\<lambda>v.
          if \<not> v > 0 then Inl AssertionFailed
          else
            bindE (vec_at (subset_datatypes m) subset') (\<lambda>dt.
            if isCodon dt then
              bindE (vec_at (qmatrix m) subset') (\<lambda>qa.
              bindE (deref (qmatrices h) qa) (\<lambda>q.
              Inr (h\<lparr>qmatrices := (qmatrices h)(qa \<mapsto> q\<lparr>omega_ptr := omega, fixed_omega := fixed\<rparr>)\<rparr>, m)))
            else Inr (h, m))))"

definition setSubsetRelRates :: "real list \<Rightarrow> bool \<Rightarrow> Model \<Rightarrow> error + Model" where
  "setSubsetRelRates relrates fixed m =
     (if \<not> num_subsets m > 0 then Inl AssertionFailed
      else if \<not> length relrates > 0 then Inl AssertionFailed
      else
        let m1 = (if relrates ! 0 = - 1
                  then m\<lparr>subset_relrates := replicate (num_subsets m) 1\<rparr>
                  else m\<lparr>subset_relrates := relrates\<rparr>)
        in Inr (m1\<lparr>subset_relrates_fixed := fixed\<rparr>))"

subsection \<open>The linkage resolver and the report: describeModel\<close>

text \<open>
  The local variables of \<^verbatim>\<open>describeModel\<close>: the sets and vectors of addresses seen so far,
  one pair for each parameter family, and the map \<^verbatim>\<open>ss\<close> from a row's name to its text
  (the pieces appended so far). The set and the vector for the relative rates are declared
  in the source and never used.
\<close>

record locals =
  freqset :: "addr set"
  xchgset :: "addr set"
  omegaset :: "addr set"
  ratevarset :: "addr set"
  pinvarset :: "addr set"
  unique_freq :: "addr list"
  unique_xchg :: "addr list"
  unique_omega :: "addr list"
  unique_ratevar :: "addr list"
  unique_pinvar :: "addr list"
  ss :: "string \<Rightarrow> ftext list"

definition init_locals :: locals where
  "init_locals =
     \<lparr>freqset = {}, xchgset = {}, omegaset = {}, ratevarset = {}, pinvarset = {},
      unique_freq = [], unique_xchg = [], unique_omega = [], unique_ratevar = [],
      unique_pinvar = [], ss = (\<lambda>row. [])\<rparr>"

text \<open>\<^verbatim>\<open>ss[row] += c\<close>.\<close>

definition add_cell :: "string \<Rightarrow> ftext \<Rightarrow> locals \<Rightarrow> locals" where
  "add_cell row c l = l\<lparr>ss := (ss l)(row := ss l row @ [c])\<rparr>"

text \<open>\<^verbatim>\<open>std::distance(v.begin(), std::find(v.begin(), v.end(), a))\<close>.\<close>

definition find_pos :: "addr list \<Rightarrow> addr \<Rightarrow> nat" where
  "find_pos v a = length (takeWhile (\<lambda>x. x \<noteq> a) v)"

type_synonym dm_state = "heap \<times> Model \<times> locals"

text \<open>Rate variance is forced fixed where there is one rate category.\<close>

definition fix_ratevar_step :: "nat \<Rightarrow> dm_state \<Rightarrow> error + dm_state" where
  "fix_ratevar_step i st =
     (case st of (h, m, l) \<Rightarrow>
        bindE (vec_at (asrv m) i) (\<lambda>aa.
        bindE (deref (asrvs h) aa) (\<lambda>a.
        if num_categ a = 1
        then Inr (h\<lparr>asrvs := (asrvs h)(aa \<mapsto> a\<lparr>ratevar_fixed := True\<rparr>)\<rparr>, m, l)
        else Inr (h, m, l))))"

definition head_step :: "nat \<Rightarrow> dm_state \<Rightarrow> error + dm_state" where
  "head_step i st =
     (case st of (h, m, l) \<Rightarrow>
        Inr (h, m, add_cell ''dashes'' (Lit ''------------'')
                     (add_cell ''subset'' (Fmt ''%12d'' [Num (i + 1)]) l)))"

text \<open>
  State frequencies. \<^verbatim>\<open>&freq[0]\<close> is the address of the first element of the shared vector:
  it identifies the vector, and is undefined for an empty one.
\<close>

definition link_freq :: "nat \<Rightarrow> dm_state \<Rightarrow> error + dm_state" where
  "link_freq i st =
     (case st of (h, m, l) \<Rightarrow>
        bindE (vec_at (qmatrix m) i) (\<lambda>qa.
        bindE (deref (qmatrices h) qa) (\<lambda>q.
        let pfreq = state_freqs_ptr q in
        bindE (deref (vectors h) pfreq) (\<lambda>freq.
        if freq = [] then Inl UndefinedBehaviour
        else
          let freq_addr = pfreq in
          if freq_addr \<notin> freqset l then
            let l1 = l\<lparr>freqset := insert freq_addr (freqset l),
                       unique_freq := unique_freq l @ [freq_addr]\<rparr>;
                m1 = (if \<not> fixed_state_freqs q
                      then m\<lparr>state_freq_params := state_freq_params m @ [qa]\<rparr> else m);
                index = length (unique_freq l1)
            in Inr (h, m1, add_cell ''freqs'' (Fmt ''%12d'' [Num index]) l1)
          else
            let index = find_pos (unique_freq l) freq_addr + 1
            in Inr (h, m, add_cell ''freqs'' (Fmt ''%12d'' [Num index]) l)))))"

definition link_xchg :: "nat \<Rightarrow> dm_state \<Rightarrow> error + dm_state" where
  "link_xchg i st =
     (case st of (h, m, l) \<Rightarrow>
        bindE (vec_at (subset_datatypes m) i) (\<lambda>dt.
        if isNucleotide dt then
          bindE (vec_at (qmatrix m) i) (\<lambda>qa.
          bindE (deref (qmatrices h) qa) (\<lambda>q.
          let pxchg = exchangeabilities_ptr q in
          bindE (deref (vectors h) pxchg) (\<lambda>xchg.
          if xchg = [] then Inl UndefinedBehaviour
          else
            let xchg_addr = pxchg in
            if xchg_addr \<notin> xchgset l then
              let l1 = l\<lparr>xchgset := insert xchg_addr (xchgset l),
                         unique_xchg := unique_xchg l @ [xchg_addr]\<rparr>;
                  m1 = (if \<not> fixed_exchangeabilities q
                        then m\<lparr>exchangeability_params := exchangeability_params m @ [qa]\<rparr>
                        else m);
                  index = length (unique_xchg l1)
              in Inr (h, m1, add_cell ''xchg'' (Fmt ''%12d'' [Num index]) l1)
            else
              let index = find_pos (unique_xchg l) xchg_addr + 1
              in Inr (h, m, add_cell ''xchg'' (Fmt ''%12d'' [Num index]) l))))
        else Inr (h, m, add_cell ''xchg'' (Fmt ''%12s'' [Lit ''-'']) l)))"

text \<open>
  Omega. The source copies the value into the automatic variable \<^verbatim>\<open>omegavalue\<close>
  (\<^verbatim>\<open>QMatrix::omega_t omegavalue = *pomega;\<close>, where the rate variance and the proportion of
  invariable sites bind a reference) and takes the address of that variable. The address
  is therefore a place in the stack frame of \<^verbatim>\<open>describeModel\<close>, given here by
  \<open>omegavalue_at i\<close> for the round \<open>i\<close> of the loop; it is no function of \<open>pomega\<close>.
\<close>

definition link_omega :: "(nat \<Rightarrow> addr) \<Rightarrow> nat \<Rightarrow> dm_state \<Rightarrow> error + dm_state" where
  "link_omega omegavalue_at i st =
     (case st of (h, m, l) \<Rightarrow>
        bindE (vec_at (subset_datatypes m) i) (\<lambda>dt.
        if isCodon dt then
          bindE (vec_at (qmatrix m) i) (\<lambda>qa.
          bindE (deref (qmatrices h) qa) (\<lambda>q.
          let pomega = omega_ptr q in
          bindE (deref (doubles h) pomega) (\<lambda>omegavalue.
          let omega_addr = omegavalue_at i in
          if omega_addr \<notin> omegaset l then
            let l1 = l\<lparr>omegaset := insert omega_addr (omegaset l),
                       unique_omega := unique_omega l @ [omega_addr]\<rparr>;
                m1 = (if \<not> fixed_omega q
                      then m\<lparr>omega_params := omega_params m @ [qa]\<rparr> else m);
                index = length (unique_omega l1)
            in Inr (h, m1, add_cell ''omega'' (Fmt ''%12d'' [Num index]) l1)
          else
            let index = find_pos (unique_omega l) omega_addr + 1
            in Inr (h, m, add_cell ''omega'' (Fmt ''%12d'' [Num index]) l))))
        else Inr (h, m, add_cell ''omega'' (Fmt ''%12s'' [Lit ''-'']) l)))"

definition link_ratevar :: "nat \<Rightarrow> dm_state \<Rightarrow> error + dm_state" where
  "link_ratevar i st =
     (case st of (h, m, l) \<Rightarrow>
        bindE (vec_at (asrv m) i) (\<lambda>aa.
        bindE (deref (asrvs h) aa) (\<lambda>a.
        let pratevar = ratevar_ptr a in
        bindE (deref (doubles h) pratevar) (\<lambda>ratevar.
        let ratevar_addr = pratevar in
        if ratevar_addr \<notin> ratevarset l then
          let l1 = l\<lparr>ratevarset := insert ratevar_addr (ratevarset l),
                     unique_ratevar := unique_ratevar l @ [ratevar_addr]\<rparr>;
              m1 = (if \<not> ratevar_fixed a
                    then m\<lparr>ratevar_params := ratevar_params m @ [aa]\<rparr> else m);
              index = length (unique_ratevar l1)
          in Inr (h, m1, add_cell ''ratevar'' (Fmt ''%12d'' [Num index]) l1)
        else
          let index = find_pos (unique_ratevar l) ratevar_addr + 1
          in Inr (h, m, add_cell ''ratevar'' (Fmt ''%12d'' [Num index]) l)))))"

definition link_pinvar :: "nat \<Rightarrow> dm_state \<Rightarrow> error + dm_state" where
  "link_pinvar i st =
     (case st of (h, m, l) \<Rightarrow>
        bindE (vec_at (asrv m) i) (\<lambda>aa.
        bindE (deref (asrvs h) aa) (\<lambda>a.
        if is_invar_model a then
          let ppinvar = pinvar_ptr a in
          bindE (deref (doubles h) ppinvar) (\<lambda>pinvar.
          let pinvar_addr = ppinvar in
          if pinvar_addr \<notin> pinvarset l then
            let l1 = l\<lparr>pinvarset := insert pinvar_addr (pinvarset l),
                       unique_pinvar := unique_pinvar l @ [pinvar_addr]\<rparr>;
                m1 = (if \<not> pinvar_fixed a
                      then m\<lparr>pinvar_params := pinvar_params m @ [aa]\<rparr> else m);
                index = length (unique_pinvar l1)
            in Inr (h, m1, add_cell ''pinvar'' (Fmt ''%12d'' [Num index]) l1)
          else
            let index = find_pos (unique_pinvar l) pinvar_addr + 1
            in Inr (h, m, add_cell ''pinvar'' (Fmt ''%12d'' [Num index]) l))
        else Inr (h, m, add_cell ''pinvar'' (Fmt ''%12s'' [Lit ''-'']) l))))"

text \<open>The rows of the partition table.\<close>

definition info_step :: "nat \<Rightarrow> dm_state \<Rightarrow> error + dm_state" where
  "info_step i st =
     (case st of (h, m, l) \<Rightarrow>
        bindE (vec_at (asrv m) i) (\<lambda>aa.
        bindE (deref (asrvs h) aa) (\<lambda>a.
        let l1 = add_cell ''ncateg'' (Fmt ''%12d'' [Num (num_categ a)]) l in
        bindE (vec_at (subset_sizes m) i) (\<lambda>nsites.
        let l2 = add_cell ''nsites'' (Fmt ''%12d'' [Num nsites]) l1 in
        bindE (vec_at (subset_npatterns m) i) (\<lambda>npatterns.
        let l3 = add_cell ''npatterns'' (Fmt ''%12d'' [Num npatterns]) l2 in
        if length (subset_datatypes m) = num_subsets m then
          bindE (vec_at (subset_datatypes m) i) (\<lambda>dt.
          Inr (h, m, add_cell ''nstates'' (Fmt ''%12d'' [Num (getNumStates dt)]) l3))
        else Inr (h, m, add_cell ''nstates'' (Fmt ''%12s'' [Lit ''?'']) l3))))))"

text \<open>One round of the loop over the subsets.\<close>

definition subset_step :: "(nat \<Rightarrow> addr) \<Rightarrow> nat \<Rightarrow> dm_state \<Rightarrow> error + dm_state" where
  "subset_step omegavalue_at i st =
     bindE (fix_ratevar_step i st) (\<lambda>st.
     bindE (head_step i st) (\<lambda>st.
     bindE (link_freq i st) (\<lambda>st.
     bindE (link_xchg i st) (\<lambda>st.
     bindE (link_omega omegavalue_at i st) (\<lambda>st.
     bindE (link_ratevar i st) (\<lambda>st.
     bindE (link_pinvar i st) (\<lambda>st.
     info_step i st)))))))"

text \<open>
  The statements of \<^verbatim>\<open>describeModel\<close> up to the end of the loop over the subsets: the
  free-parameter lists are emptied, the relative rates are forced fixed for a single
  subset, and the subsets are visited in index order.
\<close>

definition resolve_linkage :: "(nat \<Rightarrow> addr) \<Rightarrow> heap \<times> Model \<Rightarrow> error + dm_state" where
  "resolve_linkage omegavalue_at st =
     (case st of (h, m) \<Rightarrow>
        let m1 = m\<lparr>state_freq_params := [], exchangeability_params := [], omega_params := [],
                   ratevar_params := [], pinvar_params := []\<rparr>;
            m2 = (if num_subsets m1 = 1 then m1\<lparr>subset_relrates_fixed := True\<rparr> else m1)
        in foldE (subset_step omegavalue_at) [0..<num_subsets m2] (h, m2, init_locals))"

text \<open>\<^verbatim>\<open>boost::algorithm::join\<close>.\<close>

fun join :: "ftext \<Rightarrow> ftext list \<Rightarrow> ftext list" where
  "join sep [] = []"
| "join sep [x] = [x]"
| "join sep (x # y # ys) = x # sep # join sep (y # ys)"

text \<open>The six listings of parameter values, one line for each subset.\<close>

definition relrate_line :: "Model \<Rightarrow> nat \<Rightarrow> error + ftext" where
  "relrate_line m i =
     bindE (vec_at (subset_relrates m) i) (\<lambda>r.
     Inr (Fmt ''  %12d: %g\<newline>'' [Num (i + 1), Dbl r]))"

definition freqs_line :: "heap \<Rightarrow> Model \<Rightarrow> nat \<Rightarrow> error + ftext" where
  "freqs_line h m i =
     bindE (vec_at (qmatrix m) i) (\<lambda>qa.
     bindE (deref (qmatrices h) qa) (\<lambda>q.
     bindE (deref (vectors h) (state_freqs_ptr q)) (\<lambda>freqs.
     let freqs_as_strings = map (\<lambda>freq. Fmt ''%g'' [Dbl freq]) freqs;
         tmp = Cat (join (Lit '','') freqs_as_strings)
     in Inr (Fmt ''  %12d: (%s)\<newline>'' [Num (i + 1), tmp]))))"

definition xchg_line :: "heap \<Rightarrow> Model \<Rightarrow> nat \<Rightarrow> error + ftext" where
  "xchg_line h m i =
     bindE (vec_at (subset_datatypes m) i) (\<lambda>dt.
     if isNucleotide dt then
       bindE (vec_at (qmatrix m) i) (\<lambda>qa.
       bindE (deref (qmatrices h) qa) (\<lambda>q.
       bindE (deref (vectors h) (exchangeabilities_ptr q)) (\<lambda>xchg.
       let xchg_as_strings = map (\<lambda>x. Fmt ''%g'' [Dbl x]) xchg;
           tmp = Cat (join (Lit '','') xchg_as_strings)
       in Inr (Fmt ''  %12d: (%s)\<newline>'' [Num (i + 1), tmp]))))
     else Inr (Fmt ''  %12d: -\<newline>'' [Num (i + 1)]))"

definition omega_line :: "heap \<Rightarrow> Model \<Rightarrow> nat \<Rightarrow> error + ftext" where
  "omega_line h m i =
     bindE (vec_at (subset_datatypes m) i) (\<lambda>dt.
     if isCodon dt then
       bindE (vec_at (qmatrix m) i) (\<lambda>qa.
       bindE (deref (qmatrices h) qa) (\<lambda>q.
       bindE (deref (doubles h) (omega_ptr q)) (\<lambda>omega.
       Inr (Fmt ''  %12d: %g\<newline>'' [Num (i + 1), Dbl omega]))))
     else Inr (Fmt ''  %12d: -\<newline>'' [Num (i + 1)]))"

definition ratevar_line :: "heap \<Rightarrow> Model \<Rightarrow> nat \<Rightarrow> error + ftext" where
  "ratevar_line h m i =
     bindE (vec_at (asrv m) i) (\<lambda>aa.
     bindE (deref (asrvs h) aa) (\<lambda>a.
     if num_categ a > 1 then
       bindE (deref (doubles h) (ratevar_ptr a)) (\<lambda>ratevar.
       Inr (Fmt ''  %12d: %g\<newline>'' [Num (i + 1), Dbl ratevar]))
     else Inr (Fmt ''  %12d: -\<newline>'' [Num (i + 1)])))"

definition pinvar_line :: "heap \<Rightarrow> Model \<Rightarrow> nat \<Rightarrow> error + ftext" where
  "pinvar_line h m i =
     bindE (vec_at (asrv m) i) (\<lambda>aa.
     bindE (deref (asrvs h) aa) (\<lambda>a.
     bindE (deref (doubles h) (pinvar_ptr a)) (\<lambda>pinvar.
     let is_invar = is_invar_model a in
     if is_invar
     then Inr (Fmt ''  %12d: %g\<newline>'' [Num (i + 1), Dbl pinvar])
     else Inr (Fmt ''  %12d: -\<newline>'' [Num (i + 1)]))))"

text \<open>The two tables, from the rows collected in \<^verbatim>\<open>ss\<close>.\<close>

definition tables :: "(string \<Rightarrow> ftext list) \<Rightarrow> ftext list" where
  "tables rows =
     [Lit ''Partition information:\<newline>\<newline>'',
      Fmt ''%20s%s\<newline>'' [Lit ''data subset'', Cat (rows ''subset'')],
      Fmt ''%20s%s\<newline>'' [Lit ''-----------------'', Cat (rows ''dashes'')],
      Fmt ''%20s%s\<newline>'' [Lit ''num. sites'', Cat (rows ''nsites'')],
      Fmt ''%20s%s\<newline>'' [Lit ''num. patterns'', Cat (rows ''npatterns'')],
      Fmt ''%20s%s\<newline>'' [Lit ''num. states'', Cat (rows ''nstates'')],
      Fmt ''%20s%s\<newline>'' [Lit ''rate categories'', Cat (rows ''ncateg'')],
      Lit ''\<newline>Parameter linkage:\<newline>\<newline>'',
      Fmt ''%20s%s\<newline>'' [Lit ''data subset'', Cat (rows ''subset'')],
      Fmt ''%20s%s\<newline>'' [Lit ''-----------------'', Cat (rows ''dashes'')],
      Fmt ''%20s%s\<newline>'' [Lit ''state freqs'', Cat (rows ''freqs'')],
      Fmt ''%20s%s\<newline>'' [Lit ''exchangeabilities'', Cat (rows ''xchg'')],
      Fmt ''%20s%s\<newline>'' [Lit ''omega'', Cat (rows ''omega'')],
      Fmt ''%20s%s\<newline>'' [Lit ''rate variance'', Cat (rows ''ratevar'')],
      Fmt ''%20s%s\<newline>'' [Lit ''pinvar'', Cat (rows ''pinvar'')]]"

definition value_listing :: "heap \<Rightarrow> Model \<Rightarrow> error + ftext list" where
  "value_listing h m =
     (let subsets = [0..<num_subsets m] in
      bindE (mapE (relrate_line m) subsets) (\<lambda>relrates.
      bindE (mapE (freqs_line h m) subsets) (\<lambda>freqs.
      bindE (mapE (xchg_line h m) subsets) (\<lambda>xchg.
      bindE (mapE (omega_line h m) subsets) (\<lambda>omega.
      bindE (mapE (ratevar_line h m) subsets) (\<lambda>ratevar.
      bindE (mapE (pinvar_line h m) subsets) (\<lambda>pinvar.
      Inr ([Lit ''\<newline>Parameter values for each subset:\<newline>'',
            Lit ''\<newline>  relative rate:\<newline>''] @ relrates @
           [Lit ''\<newline>  state freqs:\<newline>''] @ freqs @
           [Lit ''\<newline>  exchangeabilities:\<newline>''] @ xchg @
           [Lit ''\<newline>  omega:\<newline>''] @ omega @
           [Lit ''\<newline>  rate variance:\<newline>''] @ ratevar @
           [Lit ''\<newline>  pinvar:\<newline>''] @ pinvar))))))))"

text \<open>
  \<^verbatim>\<open>std::string Model::describeModel()\<close>: the string returned (the pieces appended to \<^verbatim>\<open>s\<close>,
  in order) and the store it leaves.
\<close>

definition describeModel :: "(nat \<Rightarrow> addr) \<Rightarrow> heap \<times> Model \<Rightarrow> error + (ftext list \<times> heap \<times> Model)" where
  "describeModel omegavalue_at st =
     bindE (resolve_linkage omegavalue_at st) (\<lambda>(h, m, l).
     bindE (value_listing h m) (\<lambda>listing.
     Inr (tables (ss l) @ listing, h, m)))"

subsection \<open>Flattening the parameters: logTransformParameters\<close>

text \<open>
  The vector and the log-Jacobian are doubles: the logarithm of a proportion of
  invariable sites or of a rate variance of zero, which the setters accept, is minus
  infinity. A stored value \<open>v\<close> is the double \<open>Fin v\<close>. The simplex vectors (relative
  rates, exchangeabilities, frequencies) go through \<^verbatim>\<open>logRatioTransform\<close>, on real numbers;
  the statements about the flattened vector take their entries positive.
\<close>


text \<open>The rate-heterogeneity part of the same round.\<close>

definition ltp_asrv :: "heap \<Rightarrow> Model \<Rightarrow> nat \<Rightarrow> double list \<times> double \<Rightarrow> error + (double list \<times> double)" where
  "ltp_asrv h m k st =
     (case st of (param_vect, log_jacobian) \<Rightarrow>
        bindE (vec_at (asrv m) k) (\<lambda>aa.
        bindE (deref (asrvs h) aa) (\<lambda>a.
        bindE (if is_invar_model a then
                 bindE (deref (doubles h) (pinvar_ptr a)) (\<lambda>pinvar.
                 let log_pinvar = log_double (Fin pinvar)
                 in Inr (param_vect @ [log_pinvar], add_double log_jacobian log_pinvar))
               else Inr (param_vect, log_jacobian)) (\<lambda>(param_vect, log_jacobian).
        if num_categ a > 1 then
          bindE (deref (doubles h) (ratevar_ptr a)) (\<lambda>ratevar.
          let log_ratevar = log_double (Fin ratevar)
          in Inr (param_vect @ [log_ratevar], add_double log_jacobian log_ratevar))
        else Inr (param_vect, log_jacobian)))))"



subsection \<open>Stores in which every pointer leads somewhere\<close>

text \<open>
  What \<^verbatim>\<open>setSubsetDataTypes\<close> and the setters establish and the other member functions rely
  on: the vectors of the store have one entry for each subset, every subset has its rate
  matrix and its rate-heterogeneity object, and the parameters these refer to exist.
\<close>

definition valid_subset :: "heap \<Rightarrow> Model \<Rightarrow> nat \<Rightarrow> bool" where
  "valid_subset h m k =
     (case (qmatrices h (qmatrix m ! k), asrvs h (asrv m ! k)) of
        (Some q, Some a) \<Rightarrow>
          (case vectors h (state_freqs_ptr q) of None \<Rightarrow> False | Some f \<Rightarrow> f \<noteq> []) \<and>
          (isNucleotide (subset_datatypes m ! k) \<longrightarrow>
             (case vectors h (exchangeabilities_ptr q) of None \<Rightarrow> False | Some x \<Rightarrow> x \<noteq> [])) \<and>
          (isCodon (subset_datatypes m ! k) \<longrightarrow> doubles h (omega_ptr q) \<noteq> None) \<and>
          doubles h (ratevar_ptr a) \<noteq> None \<and>
          doubles h (pinvar_ptr a) \<noteq> None
      | _ \<Rightarrow> False)"

definition valid_store :: "heap \<Rightarrow> Model \<Rightarrow> bool" where
  "valid_store h m =
     (length (qmatrix m) = num_subsets m \<and>
      length (asrv m) = num_subsets m \<and>
      length (subset_datatypes m) = num_subsets m \<and>
      length (subset_sizes m) = num_subsets m \<and>
      length (subset_npatterns m) = num_subsets m \<and>
      length (subset_relrates m) = num_subsets m \<and>
      (\<forall>k<num_subsets m. valid_subset h m k))"

text \<open>The objects and values of subset \<open>k\<close> in a valid store.\<close>

definition qmatrix_of :: "heap \<Rightarrow> Model \<Rightarrow> nat \<Rightarrow> QMatrix" where
  "qmatrix_of h m k = the (qmatrices h (qmatrix m ! k))"

definition asrv_of :: "heap \<Rightarrow> Model \<Rightarrow> nat \<Rightarrow> ASRV" where
  "asrv_of h m k = the (asrvs h (asrv m ! k))"










subsection \<open>The layout of the flattened vector, as the specification words it\<close>










subsection \<open>Example stores\<close>

definition nucleotide_type :: DataType where
  "nucleotide_type = \<lparr>kind = Nucleotide, num_states = 4\<rparr>"

definition codon_type :: DataType where
  "codon_type = \<lparr>kind = Codon, num_states = 61\<rparr>"

text \<open>
  A nucleotide subset followed by a codon subset, each with its own objects. The doubles
  at 80, 81 and 82 belong to a caller, who may hand them to a setter.
\<close>

definition mixed_heap :: heap where
  "mixed_heap =
     \<lparr>qmatrices =
        [10 \<mapsto> \<lparr>state_freqs_ptr = 30, exchangeabilities_ptr = 40, omega_ptr = 0,
                 fixed_state_freqs = False, fixed_exchangeabilities = False, fixed_omega = False\<rparr>,
         11 \<mapsto> \<lparr>state_freqs_ptr = 31, exchangeabilities_ptr = 0, omega_ptr = 70,
                 fixed_state_freqs = False, fixed_exchangeabilities = False, fixed_omega = False\<rparr>],
      asrvs =
        [20 \<mapsto> \<lparr>num_categ = 4, ratevar_ptr = 50, pinvar_ptr = 60,
                 ratevar_fixed = False, pinvar_fixed = False, is_invar_model = True\<rparr>,
         21 \<mapsto> \<lparr>num_categ = 1, ratevar_ptr = 51, pinvar_ptr = 61,
                 ratevar_fixed = False, pinvar_fixed = False, is_invar_model = False\<rparr>],
      vectors =
        [30 \<mapsto> [1 / 10, 2 / 10, 3 / 10, 4 / 10],
         31 \<mapsto> replicate 61 (1 / 61),
         40 \<mapsto> replicate 6 (1 / 6)],
      doubles =
        [50 \<mapsto> 1 / 2, 51 \<mapsto> 1, 60 \<mapsto> 1 / 10, 61 \<mapsto> 1 / 5, 70 \<mapsto> 2,
         80 \<mapsto> - 1, 81 \<mapsto> 3, 82 \<mapsto> 0]\<rparr>"

definition mixed_model :: Model where
  "mixed_model =
     \<lparr>num_subsets = 2, num_sites = 30, subset_sizes = [10, 20], subset_npatterns = [7, 5],
      subset_datatypes = [nucleotide_type, codon_type], qmatrix = [10, 11], asrv = [20, 21],
      tree_index = False, tree_fixed = False, allow_polytomies = True,
      resolution_class_prior = True, topo_prior_C = 1,
      subset_relrates_fixed = False, subset_relrates = [3 / 2, 3 / 4],
      state_freq_params = [], exchangeability_params = [], omega_params = [],
      ratevar_params = [], pinvar_params = []\<rparr>"


text \<open>
  The same heap after the proportion of invariable sites of the first subset was set to
  zero.
\<close>

definition zero_pinvar_heap :: heap where
  "zero_pinvar_heap = mixed_heap\<lparr>doubles := (doubles mixed_heap)(60 \<mapsto> 0)\<rparr>"

text \<open>
  Three nucleotide subsets; the first and the third hold the same vector of state
  frequencies (at 30), the second holds its own (at 31).
\<close>

definition three_heap :: heap where
  "three_heap =
     \<lparr>qmatrices =
        [10 \<mapsto> \<lparr>state_freqs_ptr = 30, exchangeabilities_ptr = 40, omega_ptr = 0,
                 fixed_state_freqs = False, fixed_exchangeabilities = False, fixed_omega = False\<rparr>,
         11 \<mapsto> \<lparr>state_freqs_ptr = 31, exchangeabilities_ptr = 41, omega_ptr = 0,
                 fixed_state_freqs = False, fixed_exchangeabilities = False, fixed_omega = False\<rparr>,
         12 \<mapsto> \<lparr>state_freqs_ptr = 30, exchangeabilities_ptr = 42, omega_ptr = 0,
                 fixed_state_freqs = False, fixed_exchangeabilities = False, fixed_omega = False\<rparr>],
      asrvs =
        [20 \<mapsto> \<lparr>num_categ = 4, ratevar_ptr = 50, pinvar_ptr = 60,
                 ratevar_fixed = False, pinvar_fixed = False, is_invar_model = True\<rparr>,
         21 \<mapsto> \<lparr>num_categ = 1, ratevar_ptr = 51, pinvar_ptr = 61,
                 ratevar_fixed = False, pinvar_fixed = False, is_invar_model = True\<rparr>,
         22 \<mapsto> \<lparr>num_categ = 4, ratevar_ptr = 52, pinvar_ptr = 62,
                 ratevar_fixed = False, pinvar_fixed = False, is_invar_model = False\<rparr>],
      vectors =
        [30 \<mapsto> [1 / 4, 1 / 4, 1 / 4, 1 / 4],
         31 \<mapsto> [1 / 10, 2 / 10, 3 / 10, 4 / 10],
         40 \<mapsto> replicate 6 (1 / 6),
         41 \<mapsto> replicate 6 (1 / 6),
         42 \<mapsto> replicate 6 (1 / 6)],
      doubles =
        [50 \<mapsto> 1 / 2, 51 \<mapsto> 1, 52 \<mapsto> 2, 60 \<mapsto> 1 / 10, 61 \<mapsto> 1 / 5, 62 \<mapsto> 0]\<rparr>"

definition three_model :: Model where
  "three_model =
     \<lparr>num_subsets = 3, num_sites = 60, subset_sizes = [20, 20, 20], subset_npatterns = [7, 5, 17],
      subset_datatypes = [nucleotide_type, nucleotide_type, nucleotide_type],
      qmatrix = [10, 11, 12], asrv = [20, 21, 22],
      tree_index = False, tree_fixed = False, allow_polytomies = True,
      resolution_class_prior = True, topo_prior_C = 1,
      subset_relrates_fixed = False, subset_relrates = [1, 1, 1],
      state_freq_params = [], exchangeability_params = [], omega_params = [],
      ratevar_params = [], pinvar_params = []\<rparr>"

text \<open>Two codon subsets, each with its own omega (at 70 and at 71), both free.\<close>

definition codon_heap :: heap where
  "codon_heap =
     \<lparr>qmatrices =
        [10 \<mapsto> \<lparr>state_freqs_ptr = 30, exchangeabilities_ptr = 0, omega_ptr = 70,
                 fixed_state_freqs = False, fixed_exchangeabilities = False, fixed_omega = False\<rparr>,
         11 \<mapsto> \<lparr>state_freqs_ptr = 31, exchangeabilities_ptr = 0, omega_ptr = 71,
                 fixed_state_freqs = False, fixed_exchangeabilities = False, fixed_omega = False\<rparr>],
      asrvs =
        [20 \<mapsto> \<lparr>num_categ = 4, ratevar_ptr = 50, pinvar_ptr = 60,
                 ratevar_fixed = False, pinvar_fixed = False, is_invar_model = False\<rparr>,
         21 \<mapsto> \<lparr>num_categ = 4, ratevar_ptr = 51, pinvar_ptr = 61,
                 ratevar_fixed = False, pinvar_fixed = False, is_invar_model = False\<rparr>],
      vectors = [30 \<mapsto> replicate 61 (1 / 61), 31 \<mapsto> replicate 61 (1 / 61)],
      doubles = [50 \<mapsto> 1 / 2, 51 \<mapsto> 1, 60 \<mapsto> 1 / 10, 61 \<mapsto> 1 / 5, 70 \<mapsto> 1 / 2, 71 \<mapsto> 2]\<rparr>"

definition codon_model :: Model where
  "codon_model =
     \<lparr>num_subsets = 2, num_sites = 40, subset_sizes = [20, 20], subset_npatterns = [7, 5],
      subset_datatypes = [codon_type, codon_type], qmatrix = [10, 11], asrv = [20, 21],
      tree_index = False, tree_fixed = False, allow_polytomies = True,
      resolution_class_prior = True, topo_prior_C = 1,
      subset_relrates_fixed = False, subset_relrates = [1, 1],
      state_freq_params = [], exchangeability_params = [], omega_params = [],
      ratevar_params = [], pinvar_params = []\<rparr>"

text \<open>
  A single nucleotide subset with one rate category; the caller has left the relative
  rates and the rate variance free.
\<close>

definition single_heap :: heap where
  "single_heap =
     \<lparr>qmatrices =
        [10 \<mapsto> \<lparr>state_freqs_ptr = 30, exchangeabilities_ptr = 40, omega_ptr = 0,
                 fixed_state_freqs = False, fixed_exchangeabilities = False, fixed_omega = False\<rparr>],
      asrvs =
        [20 \<mapsto> \<lparr>num_categ = 1, ratevar_ptr = 50, pinvar_ptr = 60,
                 ratevar_fixed = False, pinvar_fixed = False, is_invar_model = False\<rparr>],
      vectors = [30 \<mapsto> [1 / 4, 1 / 4, 1 / 4, 1 / 4], 40 \<mapsto> replicate 6 (1 / 6)],
      doubles = [50 \<mapsto> 1, 60 \<mapsto> 1 / 10]\<rparr>"

definition single_model :: Model where
  "single_model =
     \<lparr>num_subsets = 1, num_sites = 20, subset_sizes = [20], subset_npatterns = [7],
      subset_datatypes = [nucleotide_type], qmatrix = [10], asrv = [20],
      tree_index = False, tree_fixed = False, allow_polytomies = True,
      resolution_class_prior = True, topo_prior_C = 1,
      subset_relrates_fixed = False, subset_relrates = [1],
      state_freq_params = [], exchangeability_params = [], omega_params = [],
      ratevar_params = [], pinvar_params = []\<rparr>"

subsection \<open>What a round of the resolver reads and what it writes\<close>

text \<open>
  The part of the state that no round changes: everything but the free-parameter lists,
  the local variables and the flag \<open>ratevar_fixed\<close> of the rate-heterogeneity objects
  (which is blanked here).
\<close>

definition static ::
  "dm_state \<Rightarrow>
     (addr \<rightharpoonup> QMatrix) \<times> (addr \<rightharpoonup> real list) \<times> (addr \<rightharpoonup> real) \<times> (addr \<rightharpoonup> ASRV) \<times>
     nat \<times> nat list \<times> nat list \<times> DataType list \<times> addr list \<times> addr list \<times> real list \<times> bool" where
  "static st = (case st of (h, m, l) \<Rightarrow>
     (qmatrices h, vectors h, doubles h,
      (\<lambda>p. map_option (\<lambda>a. a\<lparr>ratevar_fixed := False\<rparr>) (asrvs h p)),
      num_subsets m, subset_sizes m, subset_npatterns m, subset_datatypes m,
      qmatrix m, asrv m, subset_relrates m, subset_relrates_fixed m))"

text \<open>
  What belongs to one parameter family: the addresses seen, the same in order of first
  appearance, the row of the linkage table and the list of free parameters.
\<close>

type_synonym family_view = "addr set \<times> addr list \<times> ftext list \<times> addr list"

definition freq_view :: "dm_state \<Rightarrow> addr set \<times> addr list \<times> ftext list \<times> addr list" where
  "freq_view st = (case st of (h, m, l) \<Rightarrow>
     (freqset l, unique_freq l, ss l ''freqs'', state_freq_params m))"

definition omega_view :: "dm_state \<Rightarrow> addr set \<times> addr list \<times> ftext list \<times> addr list" where
  "omega_view st = (case st of (h, m, l) \<Rightarrow>
     (omegaset l, unique_omega l, ss l ''omega'', omega_params m))"

definition rv_view :: "dm_state \<Rightarrow> (addr \<rightharpoonup> ASRV) \<times> addr list" where
  "rv_view st = (case st of (h, m, l) \<Rightarrow> (asrvs h, ratevar_params m))"

text \<open>The effect of round \<open>i\<close> on the state-frequency family and on the omega family.\<close>

definition freq_next :: "(addr \<rightharpoonup> QMatrix) \<Rightarrow> addr list \<Rightarrow> nat \<Rightarrow> family_view \<Rightarrow> family_view" where
  "freq_next qs ql i v =
     (case v of (seen, uniq, row, params) \<Rightarrow>
        let q = the (qs (ql ! i)); a = state_freqs_ptr q in
        if a \<notin> seen
        then (insert a seen, uniq @ [a], row @ [Fmt ''%12d'' [Num (length uniq + 1)]],
              if fixed_state_freqs q then params else params @ [ql ! i])
        else (seen, uniq, row @ [Fmt ''%12d'' [Num (find_pos uniq a + 1)]], params))"

definition omega_next :: "(nat \<Rightarrow> addr) \<Rightarrow> (addr \<rightharpoonup> QMatrix) \<Rightarrow> addr list \<Rightarrow> DataType list \<Rightarrow> nat \<Rightarrow> family_view \<Rightarrow> family_view" where
  "omega_next oa qs ql dts i v =
     (case v of (seen, uniq, row, params) \<Rightarrow>
        if isCodon (dts ! i) then
          let q = the (qs (ql ! i)); a = oa i in
          if a \<notin> seen
          then (insert a seen, uniq @ [a], row @ [Fmt ''%12d'' [Num (length uniq + 1)]],
                if fixed_omega q then params else params @ [ql ! i])
          else (seen, uniq, row @ [Fmt ''%12d'' [Num (find_pos uniq a + 1)]], params)
        else (seen, uniq, row @ [Fmt ''%12s'' [Lit ''-'']], params))"

text \<open>
  The invariant for the rate variance, \<open>K\<close> being the subsets visited: a visited subset
  with one rate category is fixed, and no object with one rate category is listed as free.
\<close>

definition rv_inv :: "nat set \<Rightarrow> dm_state \<Rightarrow> bool" where
  "rv_inv K st = (case st of (h, m, l) \<Rightarrow>
     (\<forall>j\<in>K. \<forall>a. asrvs h (asrv m ! j) = Some a \<longrightarrow> num_categ a = 1 \<longrightarrow> ratevar_fixed a) \<and>
     (\<forall>p\<in>set (ratevar_params m). \<forall>a. asrvs h p = Some a \<longrightarrow> num_categ a \<noteq> 1))"

text \<open>The store as \<^verbatim>\<open>describeModel\<close> has it when it enters the loop.\<close>

definition cleared :: "Model \<Rightarrow> Model" where
  "cleared m =
     (let m1 = m\<lparr>state_freq_params := [], exchangeability_params := [], omega_params := [],
                 ratevar_params := [], pinvar_params := []\<rparr>
      in if num_subsets m1 = 1 then m1\<lparr>subset_relrates_fixed := True\<rparr> else m1)"

section \<open>Properties\<close>

subsection \<open>Iterations of the transform\<close>

lemma list_update_at_length:
  "length ys = n \<Longrightarrow> (ys @ z # zs)[n := v] = ys @ v # zs"
  by (simp add: list_update_append)

lemma lrt_loop:
  "n < length xs \<Longrightarrow>
   fold (lrt_step xs lf) [1..<Suc n] (replicate (length xs - 1) 0, a) =
     (map (\<lambda>i. ln (xs ! Suc i) - lf) [0..<n] @ replicate (length xs - 1 - n) 0,
      a + (\<Sum>i = 1..<Suc n. ln (xs ! i)))"
proof (induction n)
  case 0
  then show ?case by simp
next
  case (Suc n)
  then have n: "n < length xs" by simp
  have up: "[1..<Suc (Suc n)] = [1..<Suc n] @ [Suc n]" by simp
  have rep: "replicate (length xs - 1 - n) (0::real) = 0 # replicate (length xs - 1 - Suc n) 0"
    using Suc.prems by (cases "length xs - 1 - n") auto
  have "fold (lrt_step xs lf) [1..<Suc (Suc n)] (replicate (length xs - 1) 0, a) =
        lrt_step xs lf (Suc n) (fold (lrt_step xs lf) [1..<Suc n] (replicate (length xs - 1) 0, a))"
    unfolding up by simp
  also have "\<dots> = lrt_step xs lf (Suc n)
       (map (\<lambda>i. ln (xs ! Suc i) - lf) [0..<n] @ 0 # replicate (length xs - 1 - Suc n) 0,
        a + (\<Sum>i = 1..<Suc n. ln (xs ! i)))"
    unfolding Suc.IH [OF n] rep ..
  also have "\<dots> = (map (\<lambda>i. ln (xs ! Suc i) - lf) [0..<Suc n] @ replicate (length xs - 1 - Suc n) 0,
      a + (\<Sum>i = 1..<Suc (Suc n). ln (xs ! i)))"
    by (simp add: lrt_step_def Let_def list_update_at_length)
  finally show ?case .
qed

lemma lrt_eq:
  assumes "xs \<noteq> []"
  shows "logRatioTransform xs =
    Inr (map (\<lambda>i. ln (xs ! Suc i) - ln (xs ! 0)) [0..<length xs - 1], (\<Sum>i<length xs. ln (xs ! i)))"
proof -
  obtain n where n: "length xs = Suc n" using assms by (cases xs) auto
  have s: "(\<Sum>i<Suc n. ln (xs ! i)) = ln (xs ! 0) + (\<Sum>i = 1..<Suc n. ln (xs ! i))"
    unfolding lessThan_atLeast0
    by (simp only: sum.atLeast_Suc_lessThan [of 0 "Suc n"] One_nat_def zero_less_Suc if_True)
  have "logRatioTransform xs =
      Inr (fold (lrt_step xs (ln (xs ! 0))) [1..<Suc n] (replicate (length xs - 1) 0, ln (xs ! 0)))"
    using n by (simp add: logRatioTransform_def Let_def del: upt_Suc)
  also have "\<dots> = Inr (map (\<lambda>i. ln (xs ! Suc i) - ln (xs ! 0)) [0..<n] @ replicate (length xs - 1 - n) 0,
      ln (xs ! 0) + (\<Sum>i = 1..<Suc n. ln (xs ! i)))"
    by (subst lrt_loop) (simp_all add: n)
  finally show ?thesis unfolding s [symmetric] using n by simp
qed

lemma lru_exp_loop:
  "n \<le> length ys \<Longrightarrow>
   fold (lru_exp_step ys) [1..<Suc n] (Fin 1 # replicate (length ys) (Fin 0), p) =
     (Fin 1 # map exp_double (take n ys) @ replicate (length ys - n) (Fin 0),
      foldl add_double p (map exp_double (take n ys)))"
proof (induction n)
  case 0
  then show ?case by simp
next
  case (Suc n)
  then have n: "n \<le> length ys" and n': "n < length ys" by simp_all
  have up: "[1..<Suc (Suc n)] = [1..<Suc n] @ [Suc n]" by simp
  have rep: "replicate (length ys - n) (Fin 0) = Fin 0 # replicate (length ys - Suc n) (Fin 0)"
    using Suc.prems by (cases "length ys - n") auto
  have len: "length (Fin 1 # map exp_double (take n ys)) = Suc n"
    using n by simp
  have "fold (lru_exp_step ys) [1..<Suc (Suc n)] (Fin 1 # replicate (length ys) (Fin 0), p) =
        lru_exp_step ys (Suc n)
          (fold (lru_exp_step ys) [1..<Suc n] (Fin 1 # replicate (length ys) (Fin 0), p))"
    unfolding up by simp
  also have "\<dots> = lru_exp_step ys (Suc n)
       ((Fin 1 # map exp_double (take n ys)) @ Fin 0 # replicate (length ys - Suc n) (Fin 0),
        foldl add_double p (map exp_double (take n ys)))"
    unfolding Suc.IH [OF n] rep by simp
  also have "\<dots> = (Fin 1 # map exp_double (take (Suc n) ys) @ replicate (length ys - Suc n) (Fin 0),
      foldl add_double p (map exp_double (take (Suc n) ys)))"
    using n' by (simp add: lru_exp_step_def Let_def list_update_at_length [OF len]
        take_Suc_conv_app_nth del: append_Cons)
  finally show ?case .
qed

lemma lru_norm_loop:
  "n \<le> length rv \<Longrightarrow>
   fold (lru_norm_step phi) [0..<n] (rv, a) =
     (map (\<lambda>v. div_double v (add_double (Fin 1) phi)) (take n rv) @ drop n rv,
      foldl add_double a
        (map (\<lambda>v. log_double (div_double v (add_double (Fin 1) phi))) (take n rv)))"
proof (induction n)
  case 0
  then show ?case by simp
next
  case (Suc n)
  then have n: "n \<le> length rv" and n': "n < length rv" by simp_all
  have dr: "drop n rv = rv ! n # drop (Suc n) rv"
    using n' by (simp add: Cons_nth_drop_Suc)
  have len: "length (map (\<lambda>v. div_double v (add_double (Fin 1) phi)) (take n rv)) = n"
    using n by simp
  have "fold (lru_norm_step phi) [0..<Suc n] (rv, a) =
        lru_norm_step phi n (fold (lru_norm_step phi) [0..<n] (rv, a))"
    by simp
  also have "\<dots> = lru_norm_step phi n
       (map (\<lambda>v. div_double v (add_double (Fin 1) phi)) (take n rv) @ rv ! n # drop (Suc n) rv,
        foldl add_double a
          (map (\<lambda>v. log_double (div_double v (add_double (Fin 1) phi))) (take n rv)))"
    unfolding Suc.IH [OF n] dr ..
  also have "\<dots> =
     (map (\<lambda>v. div_double v (add_double (Fin 1) phi)) (take (Suc n) rv) @ drop (Suc n) rv,
      foldl add_double a
        (map (\<lambda>v. log_double (div_double v (add_double (Fin 1) phi))) (take (Suc n) rv)))"
    using n' by (simp add: lru_norm_step_def Let_def list_update_at_length [OF len]
        nth_append len take_Suc_conv_app_nth)
  finally show ?case .
qed

lemma lru_eq:
  assumes "ys \<noteq> []"
  shows "logRatioUntransform ys =
    (let phi = foldl add_double (Fin 0) (map exp_double ys);
         xs = map (\<lambda>v. div_double v (add_double (Fin 1) phi)) (Fin 1 # map exp_double ys)
     in Inr (xs, foldl add_double (Fin 0) (map log_double xs)))"
proof -
  let ?phi = "foldl add_double (Fin 0) (map exp_double ys)"
  let ?rv = "Fin 1 # map exp_double ys"
  have e: "fold (lru_exp_step ys) [1..<Suc (length ys)] (Fin 1 # replicate (length ys) (Fin 0), Fin 0) =
     (?rv, ?phi)"
    by (subst lru_exp_loop) simp_all
  have n: "fold (lru_norm_step ?phi) [0..<Suc (length ys)] (?rv, Fin 0) =
     (map (\<lambda>v. div_double v (add_double (Fin 1) ?phi)) ?rv,
      foldl add_double (Fin 0)
        (map (\<lambda>v. log_double (div_double v (add_double (Fin 1) ?phi))) ?rv))"
    using lru_norm_loop [of "Suc (length ys)" ?rv ?phi "Fin 0"] by simp
  have "logRatioUntransform ys =
     Inr (fold (lru_norm_step ?phi) [0..<Suc (length ys)] (?rv, Fin 0))"
    using assms e by (simp add: logRatioUntransform_def Let_def del: upt_Suc)
  then show ?thesis unfolding n by (simp add: Let_def comp_def)
qed

subsection \<open>The range of a double\<close>

lemma overflow_bound_ge: "2 ^ 1023 \<le> overflow_bound"
proof -
  have "(2::real) ^ 970 \<le> 2 ^ 1023" by (rule power_increasing) simp_all
  moreover have "(2::real) ^ 1024 = 2 * 2 ^ 1023"
    by (simp only: power_Suc [symmetric]) simp
  ultimately show ?thesis by (simp add: overflow_bound_def)
qed

lemma overflow_bound_le: "overflow_bound \<le> 2 ^ 1024"
  by (simp add: overflow_bound_def)

lemma to_double_Fin:
  "underflow_bound < \<bar>r\<bar> \<Longrightarrow> \<bar>r\<bar> < overflow_bound \<Longrightarrow> to_double r = Fin r"
  by (auto simp: to_double_def)

lemma to_double_0: "to_double 0 = Fin 0"
  by (simp add: to_double_def overflow_bound_def underflow_bound_def)

lemma one_less_overflow_bound: "1 < overflow_bound"
proof -
  have "(1::real) < 2 ^ 1023" by (rule one_less_power) simp_all
  then show ?thesis using overflow_bound_ge by linarith
qed

lemma to_double_moderate:
  assumes "1 / 2 ^ 1000 \<le> \<bar>r\<bar>" and "\<bar>r\<bar> \<le> 2 ^ 1000"
  shows "to_double r = Fin r"
proof (rule to_double_Fin)
  have "(2::real) ^ 1000 < 2 ^ 1075" by (rule power_strict_increasing) simp_all
  then have "(1::real) / 2 ^ 1075 < 1 / 2 ^ 1000"
    by (intro divide_strict_left_mono) simp_all
  then show "underflow_bound < \<bar>r\<bar>" using assms(1) unfolding underflow_bound_def by linarith
  have "(2::real) ^ 1000 < 2 ^ 1023" by (rule power_strict_increasing) simp_all
  then show "\<bar>r\<bar> < overflow_bound" using assms(2) overflow_bound_ge by linarith
qed

lemma to_double_small:
  assumes "1 / 2 ^ 10 \<le> \<bar>r\<bar>" and "\<bar>r\<bar> \<le> 2 ^ 10"
  shows "to_double r = Fin r"
proof (rule to_double_moderate)
  have "(2::real) ^ 10 \<le> 2 ^ 1000" by (rule power_increasing) simp_all
  then show "\<bar>r\<bar> \<le> 2 ^ 1000" using assms(2) by linarith
  have "(1::real) / 2 ^ 1000 \<le> 1 / 2 ^ 10"
    using \<open>(2::real) ^ 10 \<le> 2 ^ 1000\<close> by (intro divide_left_mono) simp_all
  then show "1 / 2 ^ 1000 \<le> \<bar>r\<bar>" using assms(1) by linarith
qed

lemma double_arith_examples:
  "to_double 1 = Fin 1" "to_double 2 = Fin 2" "to_double 3 = Fin 3"
  "to_double (1 / 3) = Fin (1 / 3)"
  by (rule to_double_small; simp)+

lemma exp_4_lower: "(2::real) ^ 5 \<le> exp 4"
proof -
  have "(5 / 2 :: real) \<le> exp 1"
    using exp_lower_Taylor_quadratic [of "1::real"] by simp
  then have "(5 / 2 :: real) ^ 4 \<le> exp 1 ^ 4"
    by (rule power_mono) simp
  also have "\<dots> = exp 4"
    using exp_of_nat_mult [of 4 "1::real"] by simp
  finally have "(5 / 2 :: real) ^ 4 \<le> exp 4" .
  moreover have "(2::real) ^ 5 \<le> (5 / 2) ^ 4" by (simp add: power_divide)
  ultimately show ?thesis by linarith
qed

lemma exp_1000_lower: "(2::real) ^ 1075 \<le> exp 1000"
proof -
  have "((2::real) ^ 5) ^ 250 \<le> exp 4 ^ 250"
    using exp_4_lower by (rule power_mono) simp
  also have "exp (4::real) ^ 250 = exp 1000"
    using exp_of_nat_mult [of 250 "4::real"] by simp
  finally have a: "((2::real) ^ 5) ^ 250 \<le> exp 1000" .
  have "((2::real) ^ 5) ^ 250 = 2 ^ (5 * 250)" by (rule power_mult [symmetric])
  moreover have "(2::real) ^ 1075 \<le> 2 ^ (5 * 250)" by (rule power_increasing) simp_all
  ultimately show ?thesis using a by (simp only:)
qed

lemma to_double_exp_1000: "to_double (exp 1000) = PInf"
proof -
  have "(2::real) ^ 1024 \<le> 2 ^ 1075" by (rule power_increasing) simp_all
  then have "overflow_bound \<le> exp 1000"
    using exp_1000_lower overflow_bound_le by linarith
  then show ?thesis by (simp only: to_double_def if_True)
qed

lemma to_double_exp_minus_1000: "to_double (exp (- 1000)) = Fin 0"
proof -
  have "exp (- 1000 :: real) = 1 / exp 1000" by (simp add: exp_minus field_simps)
  also have "\<dots> \<le> 1 / 2 ^ 1075"
    using exp_1000_lower by (intro divide_left_mono) simp_all
  finally have "exp (- 1000 :: real) \<le> underflow_bound"
    by (simp only: underflow_bound_def)
  moreover have "\<bar>exp (- 1000 :: real)\<bar> = exp (- 1000)"
    by (rule abs_of_pos) (rule exp_gt_zero)
  ultimately have u: "\<bar>exp (- 1000 :: real)\<bar> \<le> underflow_bound"
    by (simp only:)
  have "exp (- 1000 :: real) \<le> 1" by simp
  then have o: "\<not> overflow_bound \<le> exp (- 1000 :: real)"
    using one_less_overflow_bound by linarith
  have o': "\<not> exp (- 1000 :: real) \<le> - overflow_bound"
    using one_less_overflow_bound exp_gt_zero [of "- 1000 :: real"] by linarith
  show ?thesis using u o o' by (simp only: to_double_def if_True if_False)
qed

subsection \<open>The transform pair\<close>

text \<open>
  C2. For a non-empty vector \<open>x\<close> of \<open>k\<close> positive values, \<^verbatim>\<open>logRatioTransform\<close> leaves in
  the vector the \<open>k - 1\<close> values \<open>ln x\<^sub>i\<^sub>+\<^sub>1 - ln x\<^sub>1\<close> and returns the sum of the
  logarithms of all \<open>k\<close> values.
\<close>

theorem logRatioTransform_value:
  assumes "x \<noteq> []" and "\<forall>v \<in> set x. 0 < v"
  shows "logRatioTransform x =
    Inr (map (\<lambda>i. ln (x ! (i + 1)) - ln (x ! 0)) [0..<length x - 1], (\<Sum>i<length x. ln (x ! i)))"
  using lrt_eq [OF assms(1)] by simp

theorem logRatioTransform_value_witness:
  "logRatioTransform [1 / 2, 3 / 10, 1 / 5] =
     Inr ([ln (3 / 10) - ln (1 / 2), ln (1 / 5) - ln (1 / 2)], ln (1 / 2) + ln (3 / 10) + ln (1 / 5))"
  using logRatioTransform_value [of "[1 / 2, 3 / 10, 1 / 5]"]
  by (simp add: lessThan_Suc numeral_3_eq_3)

text \<open>
  C3. For a non-empty vector \<open>y\<close>, with \<open>r\<^sub>i = exp y\<^sub>i\<close> and \<open>phi\<close> the sum of the \<open>r\<^sub>i\<close>
  (added from the left, starting at zero), \<^verbatim>\<open>logRatioUntransform\<close> leaves in the vector
  \<open>1 / (1 + phi)\<close> followed by the \<open>r\<^sub>i / (1 + phi)\<close>, one value more than it was given,
  and returns the sum of the logarithms of the values it leaves (added from the left,
  starting at zero). The operations are those of doubles, so this holds for every
  vector, whatever overflows or underflows.
\<close>

theorem logRatioUntransform_value:
  assumes "y \<noteq> []"
  shows "let phi = foldl add_double (Fin 0) (map (\<lambda>i. exp_double (y ! i)) [0..<length y]);
             x = div_double (Fin 1) (add_double (Fin 1) phi) #
                 map (\<lambda>i. div_double (exp_double (y ! i)) (add_double (Fin 1) phi)) [0..<length y]
         in logRatioUntransform y =
              Inr (x, foldl add_double (Fin 0) (map (\<lambda>i. log_double (x ! i)) [0..<length x])) \<and>
            length x = length y + 1"
proof -
  have a: "map (\<lambda>i. exp_double (y ! i)) [0..<length y] = map exp_double y"
    by (rule nth_equalityI) simp_all
  have b: "map (\<lambda>i. div_double (exp_double (y ! i)) d) [0..<length y] =
      map (\<lambda>v. div_double (exp_double v) d) y" for d
    by (rule nth_equalityI) simp_all
  have l: "map (\<lambda>i. log_double (x ! i)) [0..<length x] = map log_double x" for x
    by (rule nth_equalityI) simp_all
  show ?thesis
    by (simp add: lru_eq [OF assms] Let_def a b l comp_def)
qed

theorem logRatioUntransform_value_witness:
  "logRatioUntransform [Fin 0, Fin 0] =
     Inr ([Fin (1 / 3), Fin (1 / 3), Fin (1 / 3)],
          foldl add_double (Fin 0) [log_double (Fin (1 / 3)), log_double (Fin (1 / 3)),
                                    log_double (Fin (1 / 3))])"
  using logRatioUntransform_value [of "[Fin 0, Fin 0]"]
  by (simp add: Let_def double_arith_examples)

text \<open>
  Out of range: \<open>exp 1000\<close> overflows, so the vector left is zero followed by NaN and the
  value returned is NaN; \<open>exp (- 1000)\<close> underflows to zero, whose logarithm is minus
  infinity.
\<close>

lemma logRatioUntransform_overflow:
  "logRatioUntransform [Fin 1000] = Inr ([Fin 0, NaN], NaN)"
  by (simp add: lru_eq Let_def to_double_exp_1000)

lemma logRatioUntransform_underflow:
  "logRatioUntransform [Fin (- 1000)] = Inr ([Fin 1, Fin 0], NInf)"
  by (simp add: lru_eq Let_def to_double_exp_minus_1000 double_arith_examples to_double_0)

text \<open>
  The transform of a one-element vector is the empty vector, which \<^verbatim>\<open>logRatioUntransform\<close>
  rejects by its assertion.
\<close>

lemma logRatioUntransform_of_singleton:
  "logRatioTransform [1] = Inr ([], 0) \<and> logRatioUntransform [] = Inl AssertionFailed"
  by (simp add: logRatioTransform_def logRatioUntransform_def)

subsection \<open>Setters\<close>

text \<open>
  C9. In a store of at least one subset, a supplied vector of relative rates whose first
  element is \<open>-1\<close> sets each of the relative rates to \<open>1\<close>, whatever the other supplied values
  are; any other supplied vector is installed as it is.
\<close>

theorem setSubsetRelRates_sentinel:
  assumes "1 \<le> num_subsets m" and "relrates \<noteq> []"
  shows "setSubsetRelRates relrates fixed m =
     Inr (m\<lparr>subset_relrates := (if hd relrates = - 1 then replicate (num_subsets m) 1 else relrates),
            subset_relrates_fixed := fixed\<rparr>)"
  using assms by (cases relrates) (simp_all add: setSubsetRelRates_def Let_def)

theorem setSubsetRelRates_sentinel_witness:
  "setSubsetRelRates [- 1, 5, 7] True mixed_model =
     Inr (mixed_model\<lparr>subset_relrates := [1, 1], subset_relrates_fixed := True\<rparr>)"
  using setSubsetRelRates_sentinel [of mixed_model "[- 1, 5, 7]" True]
  by (simp add: mixed_model_def numeral_2_eq_2)

text \<open>
  What the four scalar setters do with the value they are handed. \<^verbatim>\<open>setSubsetRateVar\<close>
  throws for a value below zero, \<^verbatim>\<open>setSubsetPinvar\<close> for a value below zero or not below
  one, \<^verbatim>\<open>setSubsetNumCateg\<close> for a count below one, each with a message that carries the
  value supplied; otherwise the pointer (the count) is installed and the value behind it
  is not touched. \<^verbatim>\<open>setSubsetOmega\<close> has an assertion in the place of the test: a value that
  is not positive fails it, and on a codon subset a positive value is installed untouched.
\<close>

lemma scalar_setters_validate:
  assumes "s < num_subsets m"
    and "s < length (asrv m)" and "asrvs h (asrv m ! s) = Some a"
    and "s < length (qmatrix m)" and "qmatrices h (qmatrix m ! s) = Some q"
    and "s < length (subset_datatypes m)"
    and "doubles h p = Some v"
  shows
    "setSubsetRateVar p s fixed (h, m) =
       (if v < 0
        then Inl (XStrom (Fmt ''rate variance must be greater than or equal to zero but the value %.5f was supplied'' [Dbl v]))
        else Inr (h\<lparr>asrvs := (asrvs h)(asrv m ! s \<mapsto> a\<lparr>ratevar_ptr := p, ratevar_fixed := fixed\<rparr>)\<rparr>, m)) \<and>
     setSubsetPinvar p s fixed (h, m) =
       (if v < 0
        then Inl (XStrom (Fmt ''proportion of invariable sites must be greater than or equal to zero but the value %.5f was supplied'' [Dbl v]))
        else if 1 \<le> v
        then Inl (XStrom (Fmt ''proportion of invariable sites must be less than one but the value %.5f was supplied'' [Dbl v]))
        else Inr (h\<lparr>asrvs := (asrvs h)(asrv m ! s \<mapsto> a\<lparr>pinvar_ptr := p, pinvar_fixed := fixed\<rparr>)\<rparr>, m)) \<and>
     setSubsetNumCateg n s (h, m) =
       (if n < 1
        then Inl (XStrom (Fmt ''number of categories used for among-site rate variation must be greater than zero but the value %d was supplied'' [Num n]))
        else Inr (h\<lparr>asrvs := (asrvs h)(asrv m ! s \<mapsto> a\<lparr>num_categ := n\<rparr>)\<rparr>, m)) \<and>
     setSubsetOmega p s fixed (h, m) =
       (if v \<le> 0
        then Inl AssertionFailed
        else if isCodon (subset_datatypes m ! s)
        then Inr (h\<lparr>qmatrices := (qmatrices h)(qmatrix m ! s \<mapsto> q\<lparr>omega_ptr := p, fixed_omega := fixed\<rparr>)\<rparr>, m)
        else Inr (h, m))"
proof -
  have 1: "setSubsetRateVar p s fixed (h, m) =
       (if v < 0
        then Inl (XStrom (Fmt ''rate variance must be greater than or equal to zero but the value %.5f was supplied'' [Dbl v]))
        else Inr (h\<lparr>asrvs := (asrvs h)(asrv m ! s \<mapsto> a\<lparr>ratevar_ptr := p, ratevar_fixed := fixed\<rparr>)\<rparr>, m))"
    using assms by (simp add: setSubsetRateVar_def bindE_def vec_at_def deref_def)
  have 2: "setSubsetPinvar p s fixed (h, m) =
       (if v < 0
        then Inl (XStrom (Fmt ''proportion of invariable sites must be greater than or equal to zero but the value %.5f was supplied'' [Dbl v]))
        else if 1 \<le> v
        then Inl (XStrom (Fmt ''proportion of invariable sites must be less than one but the value %.5f was supplied'' [Dbl v]))
        else Inr (h\<lparr>asrvs := (asrvs h)(asrv m ! s \<mapsto> a\<lparr>pinvar_ptr := p, pinvar_fixed := fixed\<rparr>)\<rparr>, m))"
    using assms by (simp add: setSubsetPinvar_def bindE_def vec_at_def deref_def)
  have 3: "setSubsetNumCateg n s (h, m) =
       (if n < 1
        then Inl (XStrom (Fmt ''number of categories used for among-site rate variation must be greater than zero but the value %d was supplied'' [Num n]))
        else Inr (h\<lparr>asrvs := (asrvs h)(asrv m ! s \<mapsto> a\<lparr>num_categ := n\<rparr>)\<rparr>, m))"
    using assms by (simp add: setSubsetNumCateg_def bindE_def vec_at_def deref_def)
  have 4: "setSubsetOmega p s fixed (h, m) =
       (if v \<le> 0
        then Inl AssertionFailed
        else if isCodon (subset_datatypes m ! s)
        then Inr (h\<lparr>qmatrices := (qmatrices h)(qmatrix m ! s \<mapsto> q\<lparr>omega_ptr := p, fixed_omega := fixed\<rparr>)\<rparr>, m)
        else Inr (h, m))"
    using assms by (simp add: setSubsetOmega_def bindE_def vec_at_def deref_def not_less)
  show ?thesis using 1 2 3 4 by (intro conjI)
qed

lemma scalar_setters_validate_examples:
  "setSubsetRateVar 80 1 False (mixed_heap, mixed_model) =
     Inl (XStrom (Fmt ''rate variance must be greater than or equal to zero but the value %.5f was supplied'' [Dbl (- 1)])) \<and>
   setSubsetPinvar 80 1 False (mixed_heap, mixed_model) =
     Inl (XStrom (Fmt ''proportion of invariable sites must be greater than or equal to zero but the value %.5f was supplied'' [Dbl (- 1)])) \<and>
   setSubsetNumCateg 0 1 (mixed_heap, mixed_model) =
     Inl (XStrom (Fmt ''number of categories used for among-site rate variation must be greater than zero but the value %d was supplied'' [Num 0])) \<and>
   setSubsetOmega 80 1 False (mixed_heap, mixed_model) = Inl AssertionFailed \<and>
   setSubsetRateVar 81 1 True (mixed_heap, mixed_model) =
     Inr (mixed_heap\<lparr>asrvs := (asrvs mixed_heap)(21 \<mapsto>
            \<lparr>num_categ = 1, ratevar_ptr = 81, pinvar_ptr = 61,
             ratevar_fixed = True, pinvar_fixed = False, is_invar_model = False\<rparr>)\<rparr>, mixed_model) \<and>
   setSubsetPinvar 81 1 True (mixed_heap, mixed_model) =
     Inl (XStrom (Fmt ''proportion of invariable sites must be less than one but the value %.5f was supplied'' [Dbl 3])) \<and>
   setSubsetNumCateg 4 1 (mixed_heap, mixed_model) =
     Inr (mixed_heap\<lparr>asrvs := (asrvs mixed_heap)(21 \<mapsto>
            \<lparr>num_categ = 4, ratevar_ptr = 51, pinvar_ptr = 61,
             ratevar_fixed = False, pinvar_fixed = False, is_invar_model = False\<rparr>)\<rparr>, mixed_model) \<and>
   setSubsetOmega 81 1 True (mixed_heap, mixed_model) =
     Inr (mixed_heap\<lparr>qmatrices := (qmatrices mixed_heap)(11 \<mapsto>
            \<lparr>state_freqs_ptr = 31, exchangeabilities_ptr = 0, omega_ptr = 81,
             fixed_state_freqs = False, fixed_exchangeabilities = False, fixed_omega = True\<rparr>)\<rparr>, mixed_model)"
proof -
  have s: "(1::nat) < num_subsets mixed_model" "1 < length (asrv mixed_model)"
    "1 < length (qmatrix mixed_model)" "1 < length (subset_datatypes mixed_model)"
    by (simp_all add: mixed_model_def)
  have a: "asrvs mixed_heap (asrv mixed_model ! 1) =
      Some \<lparr>num_categ = 1, ratevar_ptr = 51, pinvar_ptr = 61,
            ratevar_fixed = False, pinvar_fixed = False, is_invar_model = False\<rparr>"
    by (simp add: mixed_heap_def mixed_model_def)
  have q: "qmatrices mixed_heap (qmatrix mixed_model ! 1) =
      Some \<lparr>state_freqs_ptr = 31, exchangeabilities_ptr = 0, omega_ptr = 70,
            fixed_state_freqs = False, fixed_exchangeabilities = False, fixed_omega = False\<rparr>"
    by (simp add: mixed_heap_def mixed_model_def)
  have v: "doubles mixed_heap 80 = Some (- 1)" "doubles mixed_heap 81 = Some 3"
    by (simp_all add: mixed_heap_def)
  have i: "asrv mixed_model ! 1 = 21" "qmatrix mixed_model ! 1 = 11"
    by (simp_all add: mixed_model_def)
  have neg: "setSubsetRateVar 80 1 False (mixed_heap, mixed_model) =
     Inl (XStrom (Fmt ''rate variance must be greater than or equal to zero but the value %.5f was supplied'' [Dbl (- 1)])) \<and>
   setSubsetPinvar 80 1 False (mixed_heap, mixed_model) =
     Inl (XStrom (Fmt ''proportion of invariable sites must be greater than or equal to zero but the value %.5f was supplied'' [Dbl (- 1)])) \<and>
   setSubsetNumCateg 0 1 (mixed_heap, mixed_model) =
     Inl (XStrom (Fmt ''number of categories used for among-site rate variation must be greater than zero but the value %d was supplied'' [Num 0])) \<and>
   setSubsetOmega 80 1 False (mixed_heap, mixed_model) = Inl AssertionFailed"
    using scalar_setters_validate [OF s(1,2) a s(3) q s(4) v(1), of False 0]
    unfolding i by simp
  have pos: "setSubsetRateVar 81 1 True (mixed_heap, mixed_model) =
     Inr (mixed_heap\<lparr>asrvs := (asrvs mixed_heap)(21 \<mapsto>
            \<lparr>num_categ = 1, ratevar_ptr = 81, pinvar_ptr = 61,
             ratevar_fixed = True, pinvar_fixed = False, is_invar_model = False\<rparr>)\<rparr>, mixed_model) \<and>
   setSubsetPinvar 81 1 True (mixed_heap, mixed_model) =
     Inl (XStrom (Fmt ''proportion of invariable sites must be less than one but the value %.5f was supplied'' [Dbl 3])) \<and>
   setSubsetNumCateg 4 1 (mixed_heap, mixed_model) =
     Inr (mixed_heap\<lparr>asrvs := (asrvs mixed_heap)(21 \<mapsto>
            \<lparr>num_categ = 4, ratevar_ptr = 51, pinvar_ptr = 61,
             ratevar_fixed = False, pinvar_fixed = False, is_invar_model = False\<rparr>)\<rparr>, mixed_model) \<and>
   setSubsetOmega 81 1 True (mixed_heap, mixed_model) =
     Inr (mixed_heap\<lparr>qmatrices := (qmatrices mixed_heap)(11 \<mapsto>
            \<lparr>state_freqs_ptr = 31, exchangeabilities_ptr = 0, omega_ptr = 81,
             fixed_state_freqs = False, fixed_exchangeabilities = False, fixed_omega = True\<rparr>)\<rparr>, mixed_model)"
    using scalar_setters_validate [OF s(1,2) a s(3) q s(4) v(2), of True 4]
    unfolding i(1,2) by (simp add: mixed_model_def isCodon_def codon_type_def)
  show ?thesis using neg pos by (simp only: simp_thms)
qed

text \<open>
  C8, at an omega of zero on a codon subset. Where its three siblings throw an error that
  names the value supplied, \<^verbatim>\<open>setSubsetOmega\<close> ends in its failed assertion: nothing is
  thrown and no value is named.
\<close>

theorem setSubsetOmega_zero_on_codon:
  "setSubsetOmega 82 1 False (mixed_heap, mixed_model) = Inl AssertionFailed"
  by (simp add: setSubsetOmega_def bindE_def deref_def mixed_heap_def mixed_model_def)

text \<open>
  C10, as the code has it. \<^verbatim>\<open>setSubsetOmega\<close> asserts that omega is positive before it looks
  at the datatype. In every store, on every subset that is not a codon subset, a call with
  a positive omega leaves the store as it was and reports nothing; in every store, on
  every codon subset, a call of \<^verbatim>\<open>setSubsetExchangeabilities\<close> leaves the store as it was
  and reports nothing.
\<close>

theorem mismatched_setter_is_no_op:
  "(s < num_subsets m \<and> s < length (subset_datatypes m) \<and>
    \<not> isCodon (subset_datatypes m ! s) \<and> doubles h p = Some v \<and> 0 < v \<longrightarrow>
      setSubsetOmega p s fixed (h, m) = Inr (h, m)) \<and>
   (t < num_subsets m' \<and> t < length (subset_datatypes m') \<and>
    isCodon (subset_datatypes m' ! t) \<longrightarrow>
      setSubsetExchangeabilities x t fixed' (h', m') = Inr (h', m'))"
  by (simp add: setSubsetOmega_def setSubsetExchangeabilities_def bindE_def vec_at_def deref_def)

text \<open>
  The first half in the store of three nucleotide subsets, the second in the store of two
  codon subsets.
\<close>

theorem mismatched_setter_is_no_op_witness:
  "setSubsetOmega 50 0 True (three_heap, three_model) = Inr (three_heap, three_model) \<and>
   setSubsetExchangeabilities 30 0 True (codon_heap, codon_model) = Inr (codon_heap, codon_model)"
proof -
  have a: "(0::nat) < num_subsets three_model" "0 < length (subset_datatypes three_model)"
    "\<not> isCodon (subset_datatypes three_model ! 0)" "doubles three_heap 50 = Some (1 / 2)"
    by (simp_all add: three_model_def three_heap_def isCodon_def nucleotide_type_def)
  have b: "(0::nat) < num_subsets codon_model" "0 < length (subset_datatypes codon_model)"
    "isCodon (subset_datatypes codon_model ! 0)"
    by (simp_all add: codon_model_def isCodon_def codon_type_def)
  show ?thesis
    using mismatched_setter_is_no_op
      [of 0 three_model three_heap 50 "1 / 2" True 0 codon_model 30 True codon_heap] a b
    by simp
qed

text \<open>A nucleotide subset and an omega of zero: the assertion fails.\<close>

theorem setSubsetOmega_zero_on_nucleotide:
  "setSubsetOmega 82 0 False (mixed_heap, mixed_model) = Inl AssertionFailed"
  by (simp add: setSubsetOmega_def bindE_def deref_def mixed_heap_def mixed_model_def)

subsection \<open>The rounds of the resolver\<close>

lemmas step_simps = bindE_def vec_at_def deref_def Let_def add_cell_def
  static_def freq_view_def omega_view_def rv_view_def

lemma head_step_frame:
  "head_step i st = Inr st' \<Longrightarrow>
     static st' = static st \<and> freq_view st' = freq_view st \<and>
     omega_view st' = omega_view st \<and> rv_view st' = rv_view st"
  by (auto simp: head_step_def step_simps split: prod.splits)

lemma link_xchg_frame:
  "link_xchg i st = Inr st' \<Longrightarrow>
     static st' = static st \<and> freq_view st' = freq_view st \<and>
     omega_view st' = omega_view st \<and> rv_view st' = rv_view st"
  by (auto simp: link_xchg_def step_simps split: prod.splits option.splits if_splits)

lemma link_pinvar_frame:
  "link_pinvar i st = Inr st' \<Longrightarrow>
     static st' = static st \<and> freq_view st' = freq_view st \<and>
     omega_view st' = omega_view st \<and> rv_view st' = rv_view st"
  by (auto simp: link_pinvar_def step_simps split: prod.splits option.splits if_splits)

lemma info_step_frame:
  "info_step i st = Inr st' \<Longrightarrow>
     static st' = static st \<and> freq_view st' = freq_view st \<and>
     omega_view st' = omega_view st \<and> rv_view st' = rv_view st"
  by (auto simp: info_step_def step_simps split: prod.splits option.splits if_splits)

lemma link_freq_frame:
  "link_freq i (h, m, l) = Inr st' \<Longrightarrow>
     static st' = static (h, m, l) \<and>
     freq_view st' = freq_next (qmatrices h) (qmatrix m) i (freq_view (h, m, l)) \<and>
     omega_view st' = omega_view (h, m, l) \<and> rv_view st' = rv_view (h, m, l)"
  by (auto simp: link_freq_def freq_next_def step_simps split: prod.splits option.splits if_splits)

lemma link_omega_frame:
  "link_omega oa i (h, m, l) = Inr st' \<Longrightarrow>
     static st' = static (h, m, l) \<and> freq_view st' = freq_view (h, m, l) \<and>
     omega_view st' = omega_next oa (qmatrices h) (qmatrix m) (subset_datatypes m) i (omega_view (h, m, l)) \<and>
     rv_view st' = rv_view (h, m, l)"
  by (auto simp: link_omega_def omega_next_def step_simps split: prod.splits option.splits if_splits)

lemma rv_inv_frame:
  "static st' = static st \<Longrightarrow> rv_view st' = rv_view st \<Longrightarrow> rv_inv K st' = rv_inv K st"
  by (auto simp: rv_inv_def static_def rv_view_def split: prod.splits)

lemma fix_ratevar_step_frame:
  "fix_ratevar_step i st = Inr st' \<Longrightarrow>
     static st' = static st \<and> freq_view st' = freq_view st \<and>
     omega_view st' = omega_view st \<and> (rv_inv K st \<longrightarrow> rv_inv (insert i K) st')"
  apply (cases st)
  apply (auto simp: fix_ratevar_step_def rv_inv_def step_simps fun_eq_iff split: prod.splits option.splits if_splits)
  done

lemma link_ratevar_frame:
  "link_ratevar i st = Inr st' \<Longrightarrow>
     static st' = static st \<and> freq_view st' = freq_view st \<and>
     omega_view st' = omega_view st \<and> (i \<in> K \<longrightarrow> rv_inv K st \<longrightarrow> rv_inv K st')"
  apply (cases st)
  apply (auto simp: link_ratevar_def rv_inv_def step_simps split: prod.splits option.splits if_splits)
  done

lemma bindE_InrE:
  assumes "bindE x f = Inr y"
  obtains v where "x = Inr v" and "f v = Inr y"
  using assms by (cases x) (auto simp: bindE_def)

lemma static_fields:
  assumes "static (h', m', l') = static (h, m, l)"
  shows "qmatrices h' = qmatrices h" "vectors h' = vectors h" "doubles h' = doubles h"
    "num_subsets m' = num_subsets m" "subset_sizes m' = subset_sizes m"
    "subset_npatterns m' = subset_npatterns m" "subset_datatypes m' = subset_datatypes m"
    "qmatrix m' = qmatrix m" "asrv m' = asrv m" "subset_relrates m' = subset_relrates m"
    "subset_relrates_fixed m' = subset_relrates_fixed m"
  using assms by (simp_all add: static_def)

lemma static_asrvs:
  assumes "static (h', m', l') = static (h, m, l)"
  shows "map_option (\<lambda>a. a\<lparr>ratevar_fixed := False\<rparr>) (asrvs h' p) =
         map_option (\<lambda>a. a\<lparr>ratevar_fixed := False\<rparr>) (asrvs h p)"
  using assms by (simp add: static_def fun_eq_iff)

lemma static_asrv_cases:
  assumes "static (h', m', l') = static (h, m, l)" and "asrvs h p = Some a"
  obtains a' where "asrvs h' p = Some a'" and "num_categ a' = num_categ a"
    and "ratevar_ptr a' = ratevar_ptr a" and "pinvar_ptr a' = pinvar_ptr a"
    and "pinvar_fixed a' = pinvar_fixed a" and "is_invar_model a' = is_invar_model a"
proof -
  from static_asrvs [OF assms(1), of p] assms(2)
  obtain a' where a': "asrvs h' p = Some a'"
    and eq: "a'\<lparr>ratevar_fixed := False\<rparr> = a\<lparr>ratevar_fixed := False\<rparr>"
    by (cases "asrvs h' p") auto
  from eq have "num_categ a' = num_categ a" "ratevar_ptr a' = ratevar_ptr a"
    "pinvar_ptr a' = pinvar_ptr a" "pinvar_fixed a' = pinvar_fixed a"
    "is_invar_model a' = is_invar_model a"
    by (cases a; cases a'; simp)+
  with a' show ?thesis using that by blast
qed

lemma valid_subset_static:
  assumes st: "static (h', m', l') = static (h, m, l)" and v: "valid_subset h m k"
  shows "valid_subset h' m' k"
proof -
  from v obtain q a where q: "qmatrices h (qmatrix m ! k) = Some q"
    and a: "asrvs h (asrv m ! k) = Some a"
    by (auto simp: valid_subset_def split: option.splits)
  from static_asrv_cases [OF st a] obtain a' where a': "asrvs h' (asrv m ! k) = Some a'"
    and p: "ratevar_ptr a' = ratevar_ptr a" "pinvar_ptr a' = pinvar_ptr a"
    by metis
  show ?thesis
    using v q a a' p by (simp add: valid_subset_def static_fields [OF st])
qed

lemma valid_store_static:
  assumes "static (h', m', l') = static (h, m, l)" and "valid_store h m"
  shows "valid_store h' m'"
  using assms valid_subset_static [OF assms(1)]
  by (simp add: valid_store_def static_fields [OF assms(1)])

lemma valid_storeD:
  assumes "valid_store h m" and "i < num_subsets m"
  shows "i < length (qmatrix m)" "i < length (asrv m)" "i < length (subset_datatypes m)"
    "i < length (subset_sizes m)" "i < length (subset_npatterns m)"
    "i < length (subset_relrates m)" "valid_subset h m i"
    "length (subset_datatypes m) = num_subsets m"
  using assms by (simp_all add: valid_store_def)

lemma fix_ratevar_step_ok:
  "valid_store h m \<Longrightarrow> i < num_subsets m \<Longrightarrow> \<exists>st'. fix_ratevar_step i (h, m, l) = Inr st'"
  by (frule (1) valid_storeD(2), frule (1) valid_storeD(7))
     (auto simp: fix_ratevar_step_def valid_subset_def step_simps split: option.splits)

lemma head_step_ok: "\<exists>st'. head_step i (h, m, l) = Inr st'"
  by (simp add: head_step_def)

lemma link_freq_ok:
  "valid_store h m \<Longrightarrow> i < num_subsets m \<Longrightarrow> \<exists>st'. link_freq i (h, m, l) = Inr st'"
  by (frule (1) valid_storeD(1), frule (1) valid_storeD(7))
     (auto simp: link_freq_def valid_subset_def step_simps split: option.splits)

lemma link_xchg_ok:
  "valid_store h m \<Longrightarrow> i < num_subsets m \<Longrightarrow> \<exists>st'. link_xchg i (h, m, l) = Inr st'"
  by (frule (1) valid_storeD(1), frule (1) valid_storeD(3), frule (1) valid_storeD(7))
     (auto simp: link_xchg_def valid_subset_def step_simps split: option.splits)

lemma link_omega_ok:
  "valid_store h m \<Longrightarrow> i < num_subsets m \<Longrightarrow> \<exists>st'. link_omega oa i (h, m, l) = Inr st'"
  by (frule (1) valid_storeD(1), frule (1) valid_storeD(3), frule (1) valid_storeD(7))
     (auto simp: link_omega_def valid_subset_def step_simps split: option.splits)

lemma link_ratevar_ok:
  "valid_store h m \<Longrightarrow> i < num_subsets m \<Longrightarrow> \<exists>st'. link_ratevar i (h, m, l) = Inr st'"
  by (frule (1) valid_storeD(2), frule (1) valid_storeD(7))
     (auto simp: link_ratevar_def valid_subset_def step_simps split: option.splits)

lemma link_pinvar_ok:
  "valid_store h m \<Longrightarrow> i < num_subsets m \<Longrightarrow> \<exists>st'. link_pinvar i (h, m, l) = Inr st'"
  by (frule (1) valid_storeD(2), frule (1) valid_storeD(7))
     (auto simp: link_pinvar_def valid_subset_def step_simps split: option.splits)

lemma info_step_ok:
  "valid_store h m \<Longrightarrow> i < num_subsets m \<Longrightarrow> \<exists>st'. info_step i (h, m, l) = Inr st'"
  by (frule (1) valid_storeD(2), frule (1) valid_storeD(3), frule (1) valid_storeD(4),
      frule (1) valid_storeD(5), frule (1) valid_storeD(7))
     (auto simp: info_step_def valid_subset_def step_simps split: option.splits)

lemma subset_step_total:
  assumes v: "valid_store h m" and i: "i < num_subsets m"
  shows "\<exists>h' m' l'. subset_step oa i (h, m, l) = Inr (h', m', l') \<and>
      static (h', m', l') = static (h, m, l) \<and>
      freq_view (h', m', l') = freq_next (qmatrices h) (qmatrix m) i (freq_view (h, m, l)) \<and>
      omega_view (h', m', l') =
        omega_next oa (qmatrices h) (qmatrix m) (subset_datatypes m) i (omega_view (h, m, l)) \<and>
      (rv_inv K (h, m, l) \<longrightarrow> rv_inv (insert i K) (h', m', l'))"
proof -
  let ?st = "(h, m, l)"
  obtain h1 m1 l1 where 1: "fix_ratevar_step i ?st = Inr (h1, m1, l1)"
    using fix_ratevar_step_ok [OF v i] by (metis prod_cases3)
  note f1 = fix_ratevar_step_frame [OF 1, of K]
  have s1: "static (h1, m1, l1) = static ?st" using f1 by simp
  have v1: "valid_store h1 m1" and i1: "i < num_subsets m1"
    using valid_store_static [OF s1 v] i static_fields(4) [OF s1] by simp_all
  obtain h2 m2 l2 where 2: "head_step i (h1, m1, l1) = Inr (h2, m2, l2)"
    using head_step_ok by (metis prod_cases3)
  note f2 = head_step_frame [OF 2]
  have s2: "static (h2, m2, l2) = static ?st" using f2 s1 by simp
  have v2: "valid_store h2 m2" and i2: "i < num_subsets m2"
    using valid_store_static [OF s2 v] i static_fields(4) [OF s2] by simp_all
  obtain h3 m3 l3 where 3: "link_freq i (h2, m2, l2) = Inr (h3, m3, l3)"
    using link_freq_ok [OF v2 i2] by (metis prod_cases3)
  note f3 = link_freq_frame [OF 3]
  have s3: "static (h3, m3, l3) = static ?st" using f3 s2 by simp
  have v3: "valid_store h3 m3" and i3: "i < num_subsets m3"
    using valid_store_static [OF s3 v] i static_fields(4) [OF s3] by simp_all
  obtain h4 m4 l4 where 4: "link_xchg i (h3, m3, l3) = Inr (h4, m4, l4)"
    using link_xchg_ok [OF v3 i3] by (metis prod_cases3)
  note f4 = link_xchg_frame [OF 4]
  have s4: "static (h4, m4, l4) = static ?st" using f4 s3 by simp
  have v4: "valid_store h4 m4" and i4: "i < num_subsets m4"
    using valid_store_static [OF s4 v] i static_fields(4) [OF s4] by simp_all
  obtain h5 m5 l5 where 5: "link_omega oa i (h4, m4, l4) = Inr (h5, m5, l5)"
    using link_omega_ok [OF v4 i4] by (metis prod_cases3)
  note f5 = link_omega_frame [OF 5]
  have s5: "static (h5, m5, l5) = static ?st" using f5 s4 by simp
  have v5: "valid_store h5 m5" and i5: "i < num_subsets m5"
    using valid_store_static [OF s5 v] i static_fields(4) [OF s5] by simp_all
  obtain h6 m6 l6 where 6: "link_ratevar i (h5, m5, l5) = Inr (h6, m6, l6)"
    using link_ratevar_ok [OF v5 i5] by (metis prod_cases3)
  note f6 = link_ratevar_frame [OF 6, of "insert i K"]
  have s6: "static (h6, m6, l6) = static ?st" using f6 s5 by simp
  have v6: "valid_store h6 m6" and i6: "i < num_subsets m6"
    using valid_store_static [OF s6 v] i static_fields(4) [OF s6] by simp_all
  obtain h7 m7 l7 where 7: "link_pinvar i (h6, m6, l6) = Inr (h7, m7, l7)"
    using link_pinvar_ok [OF v6 i6] by (metis prod_cases3)
  note f7 = link_pinvar_frame [OF 7]
  have s7: "static (h7, m7, l7) = static ?st" using f7 s6 by simp
  have v7: "valid_store h7 m7" and i7: "i < num_subsets m7"
    using valid_store_static [OF s7 v] i static_fields(4) [OF s7] by simp_all
  obtain h8 m8 l8 where 8: "info_step i (h7, m7, l7) = Inr (h8, m8, l8)"
    using info_step_ok [OF v7 i7] by (metis prod_cases3)
  note f8 = info_step_frame [OF 8]
  have s8: "static (h8, m8, l8) = static ?st" using f8 s7 by simp
  have run: "subset_step oa i ?st = Inr (h8, m8, l8)"
    by (simp add: subset_step_def bindE_def 1 2 3 4 5 6 7 8)
  have fr: "freq_view (h8, m8, l8) = freq_next (qmatrices h) (qmatrix m) i (freq_view ?st)"
    using f1 f2 f3 f4 f5 f6 f7 f8 static_fields(1,8) [OF s2] by simp
  have om: "omega_view (h8, m8, l8) =
        omega_next oa (qmatrices h) (qmatrix m) (subset_datatypes m) i (omega_view ?st)"
    using f1 f2 f3 f4 f5 f6 f7 f8 static_fields(1,7,8) [OF s4] by simp
  have rv: "rv_inv (insert i K) (h8, m8, l8)" if "rv_inv K ?st"
  proof -
    have "rv_inv (insert i K) (h1, m1, l1)" using f1 that by simp
    then have "rv_inv (insert i K) (h2, m2, l2)" using rv_inv_frame f2 by blast
    then have "rv_inv (insert i K) (h3, m3, l3)" using rv_inv_frame f3 by blast
    then have "rv_inv (insert i K) (h4, m4, l4)" using rv_inv_frame f4 by blast
    then have "rv_inv (insert i K) (h5, m5, l5)" using rv_inv_frame f5 by blast
    then have "rv_inv (insert i K) (h6, m6, l6)" using f6 by simp
    then have "rv_inv (insert i K) (h7, m7, l7)" using rv_inv_frame f7 by blast
    then show ?thesis using rv_inv_frame f8 by blast
  qed
  show ?thesis using run s8 fr om rv by blast
qed

lemma resolver_loop:
  assumes "valid_store h m" and "\<forall>k\<in>set ks. k < num_subsets m"
  shows "\<exists>h' m' l'. foldE (subset_step oa) ks (h, m, l) = Inr (h', m', l') \<and>
      static (h', m', l') = static (h, m, l) \<and>
      freq_view (h', m', l') = fold (freq_next (qmatrices h) (qmatrix m)) ks (freq_view (h, m, l)) \<and>
      omega_view (h', m', l') =
        fold (omega_next oa (qmatrices h) (qmatrix m) (subset_datatypes m)) ks (omega_view (h, m, l)) \<and>
      (rv_inv K (h, m, l) \<longrightarrow> rv_inv (K \<union> set ks) (h', m', l'))"
  using assms
proof (induction ks arbitrary: h m l K)
  case Nil
  then show ?case by simp
next
  case (Cons k ks)
  then have k: "k < num_subsets m" by simp
  from subset_step_total [OF Cons.prems(1) k, of oa l K]
  obtain h1 m1 l1 where 1: "subset_step oa k (h, m, l) = Inr (h1, m1, l1)"
    and s1: "static (h1, m1, l1) = static (h, m, l)"
    and f1: "freq_view (h1, m1, l1) = freq_next (qmatrices h) (qmatrix m) k (freq_view (h, m, l))"
    and o1: "omega_view (h1, m1, l1) =
        omega_next oa (qmatrices h) (qmatrix m) (subset_datatypes m) k (omega_view (h, m, l))"
    and r1: "rv_inv K (h, m, l) \<longrightarrow> rv_inv (insert k K) (h1, m1, l1)"
    by blast
  have v1: "valid_store h1 m1" using valid_store_static [OF s1 Cons.prems(1)] .
  have b1: "\<forall>k\<in>set ks. k < num_subsets m1"
    using Cons.prems(2) static_fields(4) [OF s1] by simp
  from Cons.IH [OF v1 b1, of l1 "insert k K"]
  obtain h' m' l' where 2: "foldE (subset_step oa) ks (h1, m1, l1) = Inr (h', m', l')"
    and s2: "static (h', m', l') = static (h1, m1, l1)"
    and f2: "freq_view (h', m', l') =
        fold (freq_next (qmatrices h1) (qmatrix m1)) ks (freq_view (h1, m1, l1))"
    and o2: "omega_view (h', m', l') =
        fold (omega_next oa (qmatrices h1) (qmatrix m1) (subset_datatypes m1)) ks (omega_view (h1, m1, l1))"
    and r2: "rv_inv (insert k K) (h1, m1, l1) \<longrightarrow> rv_inv (insert k K \<union> set ks) (h', m', l')"
    by blast
  have "foldE (subset_step oa) (k # ks) (h, m, l) = Inr (h', m', l')"
    by (simp add: bindE_def 1 2)
  moreover have "static (h', m', l') = static (h, m, l)" using s1 s2 by simp
  moreover have "freq_view (h', m', l') =
      fold (freq_next (qmatrices h) (qmatrix m)) (k # ks) (freq_view (h, m, l))"
    using f1 f2 static_fields(1,8) [OF s1] by simp
  moreover have "omega_view (h', m', l') =
      fold (omega_next oa (qmatrices h) (qmatrix m) (subset_datatypes m)) (k # ks) (omega_view (h, m, l))"
    using o1 o2 static_fields(1,7,8) [OF s1] by simp
  moreover have "rv_inv K (h, m, l) \<longrightarrow> rv_inv (K \<union> set (k # ks)) (h', m', l')"
    using r1 r2 by simp
  ultimately show ?case by blast
qed

lemma mapE_ok:
  "\<forall>k\<in>set ks. \<exists>y. f k = Inr y \<Longrightarrow> \<exists>ys. mapE f ks = Inr ys"
  by (induction ks) (auto simp: bindE_def)

lemma relrate_line_ok:
  "valid_store h m \<Longrightarrow> i < num_subsets m \<Longrightarrow> \<exists>y. relrate_line m i = Inr y"
  by (frule (1) valid_storeD(6)) (simp add: relrate_line_def step_simps)

lemma freqs_line_ok:
  "valid_store h m \<Longrightarrow> i < num_subsets m \<Longrightarrow> \<exists>y. freqs_line h m i = Inr y"
  by (frule (1) valid_storeD(1), frule (1) valid_storeD(7))
     (auto simp: freqs_line_def valid_subset_def step_simps split: option.splits)

lemma xchg_line_ok:
  "valid_store h m \<Longrightarrow> i < num_subsets m \<Longrightarrow> \<exists>y. xchg_line h m i = Inr y"
  by (frule (1) valid_storeD(1), frule (1) valid_storeD(3), frule (1) valid_storeD(7))
     (auto simp: xchg_line_def valid_subset_def step_simps split: option.splits)

lemma omega_line_ok:
  "valid_store h m \<Longrightarrow> i < num_subsets m \<Longrightarrow> \<exists>y. omega_line h m i = Inr y"
  by (frule (1) valid_storeD(1), frule (1) valid_storeD(3), frule (1) valid_storeD(7))
     (auto simp: omega_line_def valid_subset_def step_simps split: option.splits)

lemma ratevar_line_ok:
  "valid_store h m \<Longrightarrow> i < num_subsets m \<Longrightarrow> \<exists>y. ratevar_line h m i = Inr y"
  by (frule (1) valid_storeD(2), frule (1) valid_storeD(7))
     (auto simp: ratevar_line_def valid_subset_def step_simps split: option.splits)

lemma pinvar_line_ok:
  "valid_store h m \<Longrightarrow> i < num_subsets m \<Longrightarrow> \<exists>y. pinvar_line h m i = Inr y"
  by (frule (1) valid_storeD(2), frule (1) valid_storeD(7))
     (auto simp: pinvar_line_def valid_subset_def step_simps split: option.splits)

lemma value_listing_ok:
  assumes v: "valid_store h m"
  shows "\<exists>t. value_listing h m = Inr t"
proof -
  let ?ks = "[0..<num_subsets m]"
  obtain a where a: "mapE (relrate_line m) ?ks = Inr a"
    using mapE_ok [of ?ks "relrate_line m"] relrate_line_ok [OF v] by auto
  obtain b where b: "mapE (freqs_line h m) ?ks = Inr b"
    using mapE_ok [of ?ks "freqs_line h m"] freqs_line_ok [OF v] by auto
  obtain c where c: "mapE (xchg_line h m) ?ks = Inr c"
    using mapE_ok [of ?ks "xchg_line h m"] xchg_line_ok [OF v] by auto
  obtain d where d: "mapE (omega_line h m) ?ks = Inr d"
    using mapE_ok [of ?ks "omega_line h m"] omega_line_ok [OF v] by auto
  obtain e where e: "mapE (ratevar_line h m) ?ks = Inr e"
    using mapE_ok [of ?ks "ratevar_line h m"] ratevar_line_ok [OF v] by auto
  obtain f where f: "mapE (pinvar_line h m) ?ks = Inr f"
    using mapE_ok [of ?ks "pinvar_line h m"] pinvar_line_ok [OF v] by auto
  show ?thesis by (simp add: value_listing_def bindE_def a b c d e f)
qed

lemma cleared_fields:
  "num_subsets (cleared m) = num_subsets m" "subset_sizes (cleared m) = subset_sizes m"
  "subset_npatterns (cleared m) = subset_npatterns m"
  "subset_datatypes (cleared m) = subset_datatypes m"
  "qmatrix (cleared m) = qmatrix m" "asrv (cleared m) = asrv m"
  "subset_relrates (cleared m) = subset_relrates m"
  "ratevar_params (cleared m) = []" "state_freq_params (cleared m) = []"
  "omega_params (cleared m) = []"
  by (simp_all add: cleared_def Let_def)

lemma valid_store_cleared: "valid_store h (cleared m) = valid_store h m"
  by (simp add: valid_store_def valid_subset_def cleared_fields cong: option.case_cong)

lemma describeModel_total:
  assumes v: "valid_store h m"
  shows "\<exists>s h' m' l'. describeModel oa (h, m) = Inr (s, h', m') \<and>
      take 15 s = tables (ss l') \<and>
      static (h', m', l') = static (h, cleared m, init_locals) \<and>
      freq_view (h', m', l') =
        fold (freq_next (qmatrices h) (qmatrix m)) [0..<num_subsets m] ({}, [], [], []) \<and>
      omega_view (h', m', l') =
        fold (omega_next oa (qmatrices h) (qmatrix m) (subset_datatypes m)) [0..<num_subsets m]
          ({}, [], [], []) \<and>
      rv_inv {0..<num_subsets m} (h', m', l')"
proof -
  have vc: "valid_store h (cleared m)" using v by (simp add: valid_store_cleared)
  have n: "num_subsets (cleared m) = num_subsets m" by (simp add: cleared_fields)
  have b: "\<forall>k\<in>set [0..<num_subsets (cleared m)]. k < num_subsets (cleared m)" by simp
  have r0: "rv_inv {} (h, cleared m, init_locals)"
    by (simp add: rv_inv_def cleared_fields)
  from resolver_loop [OF vc b, of oa init_locals "{}"] r0
  obtain h' m' l' where
    run: "foldE (subset_step oa) [0..<num_subsets (cleared m)] (h, cleared m, init_locals) = Inr (h', m', l')"
    and s: "static (h', m', l') = static (h, cleared m, init_locals)"
    and f: "freq_view (h', m', l') = fold (freq_next (qmatrices h) (qmatrix (cleared m)))
        [0..<num_subsets (cleared m)] (freq_view (h, cleared m, init_locals))"
    and om: "omega_view (h', m', l') =
        fold (omega_next oa (qmatrices h) (qmatrix (cleared m)) (subset_datatypes (cleared m)))
          [0..<num_subsets (cleared m)] (omega_view (h, cleared m, init_locals))"
    and r: "rv_inv ({} \<union> set [0..<num_subsets (cleared m)]) (h', m', l')"
    by blast
  have rl: "resolve_linkage oa (h, m) = Inr (h', m', l')"
    using run by (simp add: resolve_linkage_def cleared_def Let_def)
  have v': "valid_store h' m'" using valid_store_static [OF s vc] .
  obtain t where t: "value_listing h' m' = Inr t" using value_listing_ok [OF v'] by blast
  have d: "describeModel oa (h, m) = Inr (tables (ss l') @ t, h', m')"
    by (simp add: describeModel_def bindE_def rl t)
  have tk: "take 15 (tables (ss l') @ t) = tables (ss l')"
    by (simp add: tables_def)
  have c: "qmatrix (cleared m) = qmatrix m" "subset_datatypes (cleared m) = subset_datatypes m"
    "freq_view (h, cleared m, init_locals) = ({}, [], [], [])"
    "omega_view (h, cleared m, init_locals) = ({}, [], [], [])"
    by (simp_all add: cleared_fields freq_view_def omega_view_def init_locals_def)
  show ?thesis
    using d tk s f om r unfolding n c by (intro exI [of _ "tables (ss l') @ t"] exI [of _ h'] exI [of _ m'] exI [of _ l']) (simp add: atLeast0LessThan)
qed

lemma upt_3: "[0..<3] = [0, 1, 2]"
  by (simp add: numeral_3_eq_3 numeral_2_eq_2)

lemma valid_three: "valid_store three_heap three_model"
  by (simp add: valid_store_def valid_subset_def three_heap_def three_model_def
      numeral_3_eq_3 less_Suc_eq isNucleotide_def isCodon_def nucleotide_type_def)

lemma valid_codon: "valid_store codon_heap codon_model"
  by (simp add: valid_store_def valid_subset_def codon_heap_def codon_model_def
      numeral_2_eq_2 less_Suc_eq isNucleotide_def isCodon_def codon_type_def)

lemma valid_single: "valid_store single_heap single_model"
  by (simp add: valid_store_def valid_subset_def single_heap_def single_model_def
      isNucleotide_def isCodon_def nucleotide_type_def)

lemma valid_mixed: "valid_store mixed_heap mixed_model"
  by (simp add: valid_store_def valid_subset_def mixed_heap_def mixed_model_def
      numeral_2_eq_2 less_Suc_eq isNucleotide_def isCodon_def nucleotide_type_def codon_type_def)

subsection \<open>Linkage groups\<close>

text \<open>
  C5. In a valid store of three subsets in which subsets 0 and 2 hold the same vector of
  state frequencies and subset 1 holds another, the rate matrices of subsets 0 and 1 being
  free in their frequencies, \<^verbatim>\<open>describeModel\<close> writes the group indices 1, 2, 1 into the
  state-frequency row of the linkage table (the eleventh piece of the report) and leaves
  exactly two entries, different from each other, in the list of free state-frequency
  parameters.
\<close>

theorem shared_frequencies_grouped:
  assumes v: "valid_store h m" and n: "num_subsets m = 3"
    and same: "state_freqs_ptr (qmatrix_of h m 2) = state_freqs_ptr (qmatrix_of h m 0)"
    and other: "state_freqs_ptr (qmatrix_of h m 1) \<noteq> state_freqs_ptr (qmatrix_of h m 0)"
    and free: "\<not> fixed_state_freqs (qmatrix_of h m 0)" "\<not> fixed_state_freqs (qmatrix_of h m 1)"
  shows "\<exists>s h' m'. describeModel omegavalue_at (h, m) = Inr (s, h', m') \<and>
      s ! 10 = Fmt ''%20s%s\<newline>'' [Lit ''state freqs'',
                 Cat [Fmt ''%12d'' [Num 1], Fmt ''%12d'' [Num 2], Fmt ''%12d'' [Num 1]]] \<and>
      state_freq_params m' = [qmatrix m ! 0, qmatrix m ! 1] \<and>
      distinct (state_freq_params m')"
proof -
  from describeModel_total [OF v, of omegavalue_at]
  obtain s h' m' l' where d: "describeModel omegavalue_at (h, m) = Inr (s, h', m')"
    and t: "take 15 s = tables (ss l')"
    and f: "freq_view (h', m', l') =
        fold (freq_next (qmatrices h) (qmatrix m)) [0..<num_subsets m] ({}, [], [], [])"
    by blast
  have "freq_view (h', m', l') =
      ({state_freqs_ptr (qmatrix_of h m 1), state_freqs_ptr (qmatrix_of h m 0)},
       [state_freqs_ptr (qmatrix_of h m 0), state_freqs_ptr (qmatrix_of h m 1)],
       [Fmt ''%12d'' [Num 1], Fmt ''%12d'' [Num 2], Fmt ''%12d'' [Num 1]],
       [qmatrix m ! 0, qmatrix m ! 1])"
    using same other free unfolding f n upt_3
    by (simp add: freq_next_def Let_def qmatrix_of_def find_pos_def)
  then have row: "ss l' ''freqs'' = [Fmt ''%12d'' [Num 1], Fmt ''%12d'' [Num 2], Fmt ''%12d'' [Num 1]]"
    and par: "state_freq_params m' = [qmatrix m ! 0, qmatrix m ! 1]"
    by (simp_all add: freq_view_def)
  have "s ! 10 = take 15 s ! 10" by simp
  also have "\<dots> = Fmt ''%20s%s\<newline>'' [Lit ''state freqs'', Cat (ss l' ''freqs'')]"
    unfolding t by (simp add: tables_def)
  finally have line: "s ! 10 = Fmt ''%20s%s\<newline>'' [Lit ''state freqs'',
                 Cat [Fmt ''%12d'' [Num 1], Fmt ''%12d'' [Num 2], Fmt ''%12d'' [Num 1]]]"
    unfolding row .
  have "qmatrix m ! 0 \<noteq> qmatrix m ! 1"
    using other by (auto simp: qmatrix_of_def)
  then show ?thesis using d line par by simp
qed

theorem shared_frequencies_grouped_witness:
  "\<exists>s h' m'. describeModel (\<lambda>i. 1000) (three_heap, three_model) = Inr (s, h', m') \<and>
      s ! 10 = Fmt ''%20s%s\<newline>'' [Lit ''state freqs'',
                 Cat [Fmt ''%12d'' [Num 1], Fmt ''%12d'' [Num 2], Fmt ''%12d'' [Num 1]]] \<and>
      state_freq_params m' = [10, 11] \<and> distinct (state_freq_params m')"
proof -
  have n: "num_subsets three_model = 3"
    by (simp add: three_model_def)
  have same: "state_freqs_ptr (qmatrix_of three_heap three_model 2) =
      state_freqs_ptr (qmatrix_of three_heap three_model 0)"
    by (simp add: qmatrix_of_def three_heap_def three_model_def)
  have other: "state_freqs_ptr (qmatrix_of three_heap three_model 1) \<noteq>
      state_freqs_ptr (qmatrix_of three_heap three_model 0)"
    by (simp add: qmatrix_of_def three_heap_def three_model_def)
  have free: "\<not> fixed_state_freqs (qmatrix_of three_heap three_model 0)"
    "\<not> fixed_state_freqs (qmatrix_of three_heap three_model 1)"
    by (simp_all add: qmatrix_of_def three_heap_def three_model_def)
  have q: "qmatrix three_model ! 0 = 10" "qmatrix three_model ! 1 = 11"
    by (simp_all add: three_model_def)
  show ?thesis
    using shared_frequencies_grouped [OF valid_three n same other free, of "\<lambda>i. 1000"]
    unfolding q .
qed

text \<open>
  C7. \<^verbatim>\<open>describeModel\<close> returns on every valid store, and then: a store of exactly one
  subset has its relative rates fixed, whatever the flag was before; every subset with
  one rate category still has one, has its rate variance fixed, and its
  rate-heterogeneity object is not in the list of free rate-variance parameters.
\<close>

theorem forced_fixed:
  assumes v: "valid_store h m"
  shows "\<exists>s h' m'. describeModel omegavalue_at (h, m) = Inr (s, h', m') \<and>
      (num_subsets m = 1 \<longrightarrow> subset_relrates_fixed m') \<and>
      (\<forall>k<num_subsets m. num_categ (asrv_of h m k) = 1 \<longrightarrow>
          num_categ (asrv_of h' m' k) = 1 \<and> ratevar_fixed (asrv_of h' m' k) \<and>
          asrv m' ! k \<notin> set (ratevar_params m'))"
proof -
  from describeModel_total [OF v, of omegavalue_at]
  obtain s h' m' l' where d: "describeModel omegavalue_at (h, m) = Inr (s, h', m')"
    and st: "static (h', m', l') = static (h, cleared m, init_locals)"
    and r: "rv_inv {0..<num_subsets m} (h', m', l')"
    by blast
  have rel: "subset_relrates_fixed m'" if "num_subsets m = 1"
    using static_fields(11) [OF st] that by (simp add: cleared_def Let_def)
  have av: "asrv m' = asrv m"
    using static_fields(9) [OF st] by (simp add: cleared_fields)
  have rv: "num_categ (asrv_of h' m' k) = 1 \<and> ratevar_fixed (asrv_of h' m' k) \<and>
      asrv m' ! k \<notin> set (ratevar_params m')"
    if k: "k < num_subsets m" and c: "num_categ (asrv_of h m k) = 1" for k
  proof -
    from valid_storeD(7) [OF v k] obtain a where a: "asrvs h (asrv m ! k) = Some a"
      by (auto simp: valid_subset_def split: option.splits)
    from static_asrv_cases [OF st a] obtain a' where a': "asrvs h' (asrv m ! k) = Some a'"
      and nc: "num_categ a' = num_categ a"
      by metis
    have c': "num_categ a' = 1" using c a nc by (simp add: asrv_of_def)
    have "ratevar_fixed a'"
      using r k a' c' av by (auto simp: rv_inv_def)
    moreover have "asrv m ! k \<notin> set (ratevar_params m')"
      using r a' c' by (auto simp: rv_inv_def)
    ultimately show ?thesis using a' c' av by (simp add: asrv_of_def)
  qed
  show ?thesis using d rel rv by blast
qed

theorem forced_fixed_witness:
  "\<exists>s h' m'. describeModel (\<lambda>i. 1000) (single_heap, single_model) = Inr (s, h', m') \<and>
      subset_relrates_fixed m' \<and> ratevar_fixed (asrv_of h' m' 0) \<and>
      asrv m' ! 0 \<notin> set (ratevar_params m')"
proof -
  have n: "num_subsets single_model = 1"
    by (simp add: single_model_def)
  have c: "num_categ (asrv_of single_heap single_model 0) = 1"
    by (simp add: asrv_of_def single_heap_def single_model_def)
  show ?thesis
    using forced_fixed [OF valid_single, of "\<lambda>i. 1000"] n c by auto
qed

text \<open>
  With two codon subsets, the second finds the address of \<^verbatim>\<open>omegavalue\<close> in the set as
  soon as that variable has the place it had in the first round, whatever the two rate
  matrices point to.
\<close>

lemma omega_groups_collapse:
  assumes v: "valid_store h m" and n: "num_subsets m = 2"
    and c: "isCodon (subset_datatypes m ! 0)" "isCodon (subset_datatypes m ! 1)"
    and slot: "omegavalue_at 1 = omegavalue_at 0"
    and free: "\<not> fixed_omega (qmatrix_of h m 0)"
  shows "\<exists>s h' m'. describeModel omegavalue_at (h, m) = Inr (s, h', m') \<and>
      s ! 12 = Fmt ''%20s%s\<newline>'' [Lit ''omega'', Cat [Fmt ''%12d'' [Num 1], Fmt ''%12d'' [Num 1]]] \<and>
      omega_params m' = [qmatrix m ! 0]"
proof -
  from describeModel_total [OF v, of omegavalue_at]
  obtain s h' m' l' where d: "describeModel omegavalue_at (h, m) = Inr (s, h', m')"
    and t: "take 15 s = tables (ss l')"
    and f: "omega_view (h', m', l') =
        fold (omega_next omegavalue_at (qmatrices h) (qmatrix m) (subset_datatypes m))
          [0..<num_subsets m] ({}, [], [], [])"
    by blast
  have u: "[0..<2] = [0, 1]" by (simp add: numeral_2_eq_2)
  have "omega_view (h', m', l') =
      ({omegavalue_at 0}, [omegavalue_at 0], [Fmt ''%12d'' [Num 1], Fmt ''%12d'' [Num 1]],
       [qmatrix m ! 0])"
    using c slot free unfolding f n u
    by (simp add: omega_next_def Let_def qmatrix_of_def find_pos_def)
  then have row: "ss l' ''omega'' = [Fmt ''%12d'' [Num 1], Fmt ''%12d'' [Num 1]]"
    and par: "omega_params m' = [qmatrix m ! 0]"
    by (simp_all add: omega_view_def)
  have "s ! 12 = take 15 s ! 12" by simp
  also have "\<dots> = Fmt ''%20s%s\<newline>'' [Lit ''omega'', Cat (ss l' ''omega'')]"
    unfolding t by (simp add: tables_def)
  finally show ?thesis using d par unfolding row by simp
qed

text \<open>
  C4 asks that two codon subsets whose omegas are distinct objects get different group
  indices, and that both are listed when both are free. In the store of two codon
  subsets with omegas at 70 and at 71, both free, \<^verbatim>\<open>describeModel\<close> gives both subsets the
  index 1 in the omega row (the thirteenth piece of the report) and lists the first rate
  matrix only.
\<close>

theorem distinct_omegas_one_group:
  "omega_ptr (qmatrix_of codon_heap codon_model 0) \<noteq> omega_ptr (qmatrix_of codon_heap codon_model 1) \<and>
   \<not> fixed_omega (qmatrix_of codon_heap codon_model 0) \<and>
   \<not> fixed_omega (qmatrix_of codon_heap codon_model 1) \<and>
   (\<exists>s h' m'. describeModel (\<lambda>i. 1000) (codon_heap, codon_model) = Inr (s, h', m') \<and>
      s ! 12 = Fmt ''%20s%s\<newline>'' [Lit ''omega'', Cat [Fmt ''%12d'' [Num 1], Fmt ''%12d'' [Num 1]]] \<and>
      omega_params m' = [10])"
proof -
  have n: "num_subsets codon_model = 2"
    by (simp add: codon_model_def)
  have c: "isCodon (subset_datatypes codon_model ! 0)" "isCodon (subset_datatypes codon_model ! 1)"
    by (simp_all add: codon_model_def isCodon_def codon_type_def)
  have q: "omega_ptr (qmatrix_of codon_heap codon_model 0) = 70"
    "omega_ptr (qmatrix_of codon_heap codon_model 1) = 71"
    "\<not> fixed_omega (qmatrix_of codon_heap codon_model 0)"
    "\<not> fixed_omega (qmatrix_of codon_heap codon_model 1)"
    "qmatrix codon_model ! 0 = 10"
    by (simp_all add: qmatrix_of_def codon_heap_def codon_model_def)
  show ?thesis
    using omega_groups_collapse [OF valid_codon n c refl q(3), of "\<lambda>i. 1000"] q
    by simp
qed

subsection \<open>The flattened vector\<close>


















text \<open>
  A proportion of invariable sites of zero: its logarithm is minus infinity, which is what
  is appended and, added to a finite value, what is returned.
\<close>

lemma ltp_asrv_zero_pinvar:
  "ltp_asrv zero_pinvar_heap mixed_model 0 ([], Fin 0) =
     Inr ([NInf, log_double (Fin (1 / 2))], add_double NInf (log_double (Fin (1 / 2))))"
  by (simp add: ltp_asrv_def zero_pinvar_heap_def mixed_heap_def mixed_model_def
      bindE_def vec_at_def deref_def Let_def del: log_double.simps add_double.simps)
     simp

end
